theory Spec2Isabelle
  imports Complex_Main "HOL-Library.Multiset" "HOL-Library.Sublist" "HOL-Library.Log_Nat"
begin

section \<open>Domain model (src/src/model/Types.ts)\<close>

text \<open>
  The TypeScript \<^verbatim>\<open>number\<close> of prices and quantities is the type parameter \<open>'n\<close>;
  every definition uses only the arithmetic the source uses, and each theorem names
  the laws of arithmetic it relies on through the sort of \<open>'n\<close>. The sorts of exact
  arithmetic (\<open>monoid_add\<close>, \<open>comm_monoid_add\<close>, \<open>linordered_ab_group_add\<close>) hold
  integers and rationals; the binary64 numbers of JavaScript (type \<open>double\<close> below)
  have the operations (\<open>zero\<close>, \<open>plus\<close>, \<open>times\<close>, \<open>minus\<close>, \<open>ord\<close>) and none of
  these laws.

  Identifiers are strings. \<^verbatim>\<open>createdAt\<close> is an ISO string that the code only ever
  reads through \<^verbatim>\<open>new Date(...)\<close>; it is kept as the instant it denotes, in
  milliseconds since the epoch.
  The optional \<^verbatim>\<open>modifierName?: string\<close> is a \<open>string option\<close>.
  The fields \<^verbatim>\<open>id\<close>, \<^verbatim>\<open>name\<close> and \<^verbatim>\<open>status\<close> occur in several types; they
  carry the name of their type (\<open>mi_id\<close>, \<open>table_id\<close>, \<open>order_id\<close>, \<open>mod_name\<close>,
  \<open>mi_name\<close>, \<open>table_name\<close>, \<open>table_status\<close>). A variable the source calls \<^verbatim>\<open>o\<close>
  is \<open>od\<close>, and \<^verbatim>\<open>mod\<close> is \<open>mod'\<close>.
\<close>

record 'n Modifier =
  mod_name :: string
  priceDelta :: 'n

record 'n MenuItem =
  mi_id :: string
  mi_name :: string
  category :: string
  price :: 'n
  modifiers :: "'n Modifier list"

datatype TableStatus = available | occupied | needs_cleaning

record Table =
  table_id :: string
  table_name :: string
  table_status :: TableStatus

record 'n OrderItem =
  menuItemId :: string
  modifierName :: "string option"
  qty :: 'n

datatype OrderStatus = in_progress | served | paid

record 'n Order =
  order_id :: string
  tableId :: string
  items :: "'n OrderItem list"
  status :: OrderStatus
  createdAt :: int

section \<open>Utilities (src/src/model/Utils.ts)\<close>

text \<open>
  \<^verbatim>\<open>startOfDay\<close> builds local midnight from the local calendar fields of a date.
  The local time zone is the parameter \<open>tz\<close>: the offset of local time from UTC in
  milliseconds, the same at every instant. Instants are taken from the year 100 on (the
  constructor reads the years 0 to 99 as 1900 to 1999).
\<close>

definition startOfDay :: "int \<Rightarrow> int \<Rightarrow> int" where
  "startOfDay tz d = d - (d + tz) mod 86400000"

definition isSameDay :: "int \<Rightarrow> int \<Rightarrow> int \<Rightarrow> bool" where
  "isSameDay tz a b \<longleftrightarrow> startOfDay tz a = startOfDay tz b"

text \<open>\<^verbatim>\<open>new Date()\<close> inside the function is the parameter \<open>now\<close>.\<close>

definition withinLastNDays :: "int \<Rightarrow> int \<Rightarrow> int \<Rightarrow> int \<Rightarrow> bool" where
  "withinLastNDays tz now dateISO n =
     (let d = dateISO;
          start = startOfDay tz now - (n - 1) * 86400000
      in start \<le> d \<and> d \<le> now)"


text \<open>
  The calendar of a zone whose offset changes, for instants from the year 100 on:
  \<open>offsetAt z t\<close> is the offset of local time from UTC at the instant \<open>t\<close>, which
  \<^verbatim>\<open>getFullYear\<close>, \<^verbatim>\<open>getMonth\<close> and \<^verbatim>\<open>getDate\<close> read the local date with, and
  \<open>offsetOfLocal z l\<close> is the offset the platform takes for the local time \<open>l\<close> when
  \<^verbatim>\<open>new Date(year, month, date)\<close> turns local midnight into an instant. A zone of
  fixed offset is \<open>fixedZone tz\<close>.
\<close>

record Zone =
  offsetAt :: "int \<Rightarrow> int"
  offsetOfLocal :: "int \<Rightarrow> int"

definition fixedZone :: "int \<Rightarrow> Zone" where
  "fixedZone tz = \<lparr>offsetAt = (\<lambda>t. tz), offsetOfLocal = (\<lambda>l. tz)\<rparr>"

definition startOfDay_zone :: "Zone \<Rightarrow> int \<Rightarrow> int" where
  "startOfDay_zone z d =
     (let l = d + offsetAt z d;
          midnight = l - l mod 86400000
      in midnight - offsetOfLocal z midnight)"

text \<open>
  \<^verbatim>\<open>it.modifierName ? mi.modifiers.find(m => m.name === it.modifierName) : undefined\<close>:
  the test is JavaScript truthiness, so the empty string counts as no modifier.

  \<open>computeOrderTotal\<close> reads the index through its own properties, the entries of
  \<^verbatim>\<open>Object.fromEntries\<close>: \<open>menuIndex k\<close> is \<open>None\<close> for every \<open>k\<close> that is not a key.
  This is the function of the code on every order none of whose lines reads a member
  that the index object inherits; \<open>computeOrderTotal_js\<close> below is the function on
  every order, and lemma \<open>computeOrderTotal_js_own\<close> relates the two.
\<close>

definition computeOrderTotal ::
    "('n::{zero,plus,times}) Order \<Rightarrow> (string \<rightharpoonup> 'n MenuItem) \<Rightarrow> 'n" where
  "computeOrderTotal order menuIndex =
     foldl (\<lambda>sum it.
        case menuIndex (menuItemId it) of
          None \<Rightarrow> sum
        | Some mi \<Rightarrow>
            let mod' = (case modifierName it of
                         None \<Rightarrow> None
                       | Some n \<Rightarrow> if n = [] then None
                                  else find (\<lambda>m. mod_name m = n) (modifiers mi));
                price = price mi + (case mod' of None \<Rightarrow> 0 | Some m \<Rightarrow> priceDelta m)
            in sum + price * qty it)
       0 (items order)"

text \<open>
  The index is a plain object, with \<^verbatim>\<open>Object.prototype\<close> as its prototype, and
  \<^verbatim>\<open>menuIndex[k]\<close> reads an own property, or else a member inherited from
  \<^verbatim>\<open>Object.prototype\<close>, or else gives \<^verbatim>\<open>undefined\<close>. \<open>objectPrototype\<close> lists the
  members of \<^verbatim>\<open>Object.prototype\<close> (ECMAScript, with its annex B), each with the value
  of its own \<^verbatim>\<open>name\<close> property: eleven are functions, named as their key but for
  \<^verbatim>\<open>constructor\<close>, which is the function \<^verbatim>\<open>Object\<close>; \<^verbatim>\<open>__proto__\<close> gives
  \<^verbatim>\<open>Object.prototype\<close> itself, which has no \<^verbatim>\<open>name\<close>. All of them are truthy and none
  has a property \<^verbatim>\<open>price\<close> or \<^verbatim>\<open>modifiers\<close>.
\<close>

definition objectPrototype :: "(string \<times> string option) list" where
  "objectPrototype =
     [(''constructor'', Some ''Object''),
      (''__defineGetter__'', Some ''__defineGetter__''),
      (''__defineSetter__'', Some ''__defineSetter__''),
      (''hasOwnProperty'', Some ''hasOwnProperty''),
      (''__lookupGetter__'', Some ''__lookupGetter__''),
      (''__lookupSetter__'', Some ''__lookupSetter__''),
      (''isPrototypeOf'', Some ''isPrototypeOf''),
      (''propertyIsEnumerable'', Some ''propertyIsEnumerable''),
      (''toString'', Some ''toString''),
      (''valueOf'', Some ''valueOf''),
      (''__proto__'', None),
      (''toLocaleString'', Some ''toLocaleString'')]"

datatype 'n property = Undefined | OwnItem "'n MenuItem" | Inherited "string option"

definition getProperty :: "(string \<rightharpoonup> 'n MenuItem) \<Rightarrow> string \<Rightarrow> 'n property" where
  "getProperty menuIndex k =
     (case menuIndex k of
        Some mi \<Rightarrow> OwnItem mi
      | None \<Rightarrow> (case map_of objectPrototype k of
                  Some nm \<Rightarrow> Inherited nm
                | None \<Rightarrow> Undefined))"

text \<open>
  What a call of \<^verbatim>\<open>computeOrderTotal\<close> comes to: a number computed from the numbers of
  the data, the number \<^verbatim>\<open>NaN\<close> that arithmetic on \<^verbatim>\<open>undefined\<close> gives, or a
  \<^verbatim>\<open>TypeError\<close> thrown. On an inherited member \<open>mi\<close>, \<^verbatim>\<open>mi.modifiers\<close> is
  \<^verbatim>\<open>undefined\<close> and \<^verbatim>\<open>mi.modifiers.find\<close> throws; without a modifier name
  \<^verbatim>\<open>mi.price + 0\<close> is \<^verbatim>\<open>undefined + 0\<close>, that is \<^verbatim>\<open>NaN\<close>, and so are its product with
  the quantity and every sum with it. A thrown error ends the \<^verbatim>\<open>reduce\<close>.
\<close>

datatype 'n outcome = Value 'n | NotANumber | TypeError

fun addNumber :: "('n::plus) outcome \<Rightarrow> 'n \<Rightarrow> 'n outcome" where
  "addNumber (Value s) x = Value (s + x)"
| "addNumber NotANumber x = NotANumber"
| "addNumber TypeError x = TypeError"

definition computeOrderTotal_js ::
    "('n::{zero,plus,times}) Order \<Rightarrow> (string \<rightharpoonup> 'n MenuItem) \<Rightarrow> 'n outcome" where
  "computeOrderTotal_js order menuIndex =
     foldl (\<lambda>sum it.
        if sum = TypeError then TypeError
        else
          case getProperty menuIndex (menuItemId it) of
            Undefined \<Rightarrow> sum
          | OwnItem mi \<Rightarrow>
              let mod' = (case modifierName it of
                           None \<Rightarrow> None
                         | Some n \<Rightarrow> if n = [] then None
                                    else find (\<lambda>m. mod_name m = n) (modifiers mi));
                  price = price mi + (case mod' of None \<Rightarrow> 0 | Some m \<Rightarrow> priceDelta m)
              in addNumber sum (price * qty it)
          | Inherited nm \<Rightarrow>
              (case modifierName it of
                 None \<Rightarrow> NotANumber
               | Some n \<Rightarrow> if n = [] then NotANumber else TypeError))
       (Value 0) (items order)"

section \<open>State store and mutators (src/src/App.tsx, lines 56-106)\<close>

text \<open>
  The three \<^verbatim>\<open>useState\<close> collections are one record. A handler maps the state at
  the moment it is called to the state after its updater functions have run.
  \<^verbatim>\<open>uid()\<close> and \<^verbatim>\<open>new Date()\<close> are the parameters \<open>newId\<close> and \<open>now\<close>.
\<close>

record 'n AppState =
  menuItems :: "'n MenuItem list"
  tables :: "Table list"
  orders :: "'n Order list"

text \<open>\<^verbatim>\<open>Object.fromEntries(menuItems.map(m => [m.id, m]))\<close>: a later entry overwrites.\<close>

definition menuIndexOf :: "'n MenuItem list \<Rightarrow> (string \<rightharpoonup> 'n MenuItem)" where
  "menuIndexOf ms = foldl (\<lambda>idx m. idx(mi_id m \<mapsto> m)) Map.empty ms"

definition createOrder ::
    "string \<Rightarrow> int \<Rightarrow> string \<Rightarrow> 'n OrderItem list \<Rightarrow> 'n AppState \<Rightarrow> 'n AppState" where
  "createOrder newId now tid its s =
     (let newOrder = \<lparr>order_id = newId, tableId = tid, items = its,
                       status = in_progress, createdAt = now\<rparr>
      in s\<lparr>orders := newOrder # orders s,
           tables := map (\<lambda>t. if table_id t = tid then t\<lparr>table_status := occupied\<rparr> else t)
                         (tables s)\<rparr>)"

definition updateOrderStatus :: "string \<Rightarrow> OrderStatus \<Rightarrow> 'n AppState \<Rightarrow> 'n AppState" where
  "updateOrderStatus orderId st s =
     (let s' = s\<lparr>orders := map (\<lambda>od. if order_id od = orderId then od\<lparr>status := st\<rparr> else od)
                                (orders s)\<rparr>
      in if st = paid then
           (case find (\<lambda>od. order_id od = orderId) (orders s) of
              Some order \<Rightarrow>
                s'\<lparr>tables := map (\<lambda>t. if table_id t = tableId order
                                       then t\<lparr>table_status := needs_cleaning\<rparr> else t)
                                  (tables s')\<rparr>
            | None \<Rightarrow> s')
         else s')"

definition markTableClean :: "string \<Rightarrow> 'n AppState \<Rightarrow> 'n AppState" where
  "markTableClean tid s =
     s\<lparr>tables := map (\<lambda>t. if table_id t = tid then t\<lparr>table_status := available\<rparr> else t)
                      (tables s)\<rparr>"

section \<open>Dashboard aggregates (src/src/App.tsx, lines 171-221)\<close>


definition weekSum ::
    "int \<Rightarrow> int \<Rightarrow> ('n::{zero,plus,times}) Order list \<Rightarrow> (string \<rightharpoonup> 'n MenuItem) \<Rightarrow> 'n" where
  "weekSum tz now os menuIndex =
     foldl (\<lambda>s od. s + computeOrderTotal od menuIndex) 0
       (filter (\<lambda>od. (status od = paid \<or> status od = served)
                     \<and> withinLastNDays tz now (createdAt od) 7) os)"

definition monthSum ::
    "int \<Rightarrow> int \<Rightarrow> ('n::{zero,plus,times}) Order list \<Rightarrow> (string \<rightharpoonup> 'n MenuItem) \<Rightarrow> 'n" where
  "monthSum tz now os menuIndex =
     foldl (\<lambda>s od. s + computeOrderTotal od menuIndex) 0
       (filter (\<lambda>od. (status od = paid \<or> status od = served)
                     \<and> withinLastNDays tz now (createdAt od) 30) os)"


definition activeOrders :: "'n Order list \<Rightarrow> 'n Order list" where
  "activeOrders os = filter (\<lambda>od. status od = in_progress) os"










section \<open>Seed data (src/src/model/SeedData.ts)\<close>

definition seedMenu :: "rat MenuItem list" where
  "seedMenu =
     [\<lparr>mi_id = ''mi_pizza'', mi_name = ''Margherita Pizza'', category = ''Entrees'',
       price = 12,
       modifiers = [\<lparr>mod_name = ''Extra Cheese'', priceDelta = 2\<rparr>,
                    \<lparr>mod_name = ''Gluten-Free Crust'', priceDelta = 3\<rparr>]\<rparr>,
      \<lparr>mi_id = ''mi_burger'', mi_name = ''Classic Burger'', category = ''Entrees'',
       price = 11,
       modifiers = [\<lparr>mod_name = ''Bacon'', priceDelta = 5 / 2\<rparr>,
                    \<lparr>mod_name = ''Cheddar'', priceDelta = 3 / 2\<rparr>]\<rparr>,
      \<lparr>mi_id = ''mi_salad'', mi_name = ''Caesar Salad'', category = ''Salads'',
       price = 9,
       modifiers = [\<lparr>mod_name = ''Grilled Chicken'', priceDelta = 3\<rparr>,
                    \<lparr>mod_name = ''Anchovies'', priceDelta = 1\<rparr>]\<rparr>,
      \<lparr>mi_id = ''mi_coffee'', mi_name = ''Iced Coffee'', category = ''Drinks'',
       price = 4,
       modifiers = [\<lparr>mod_name = ''Oat Milk'', priceDelta = 1 / 2\<rparr>,
                    \<lparr>mod_name = ''Vanilla Syrup'', priceDelta = 1 / 2\<rparr>]\<rparr>]"

text \<open>The four \<^verbatim>\<open>uid()\<close> results are the parameters \<open>u1\<close> to \<open>u4\<close>.\<close>

definition seedOrders :: "string \<Rightarrow> string \<Rightarrow> string \<Rightarrow> string \<Rightarrow> int \<Rightarrow> rat Order list" where
  "seedOrders u1 u2 u3 u4 now =
     (let daysAgo = (\<lambda>n. now - n * 86400000)
      in [\<lparr>order_id = u1, tableId = ''t1'',
           items = [\<lparr>menuItemId = ''mi_pizza'', modifierName = None, qty = 2\<rparr>,
                    \<lparr>menuItemId = ''mi_coffee'', modifierName = Some ''Oat Milk'', qty = 2\<rparr>],
           status = in_progress, createdAt = now\<rparr>,
          \<lparr>order_id = u2, tableId = ''t2'',
           items = [\<lparr>menuItemId = ''mi_burger'', modifierName = Some ''Bacon'', qty = 1\<rparr>,
                    \<lparr>menuItemId = ''mi_salad'', modifierName = Some ''Grilled Chicken'', qty = 1\<rparr>],
           status = served, createdAt = now\<rparr>,
          \<lparr>order_id = u3, tableId = ''t3'',
           items = [\<lparr>menuItemId = ''mi_burger'', modifierName = None, qty = 1\<rparr>,
                    \<lparr>menuItemId = ''mi_coffee'', modifierName = Some ''Vanilla Syrup'', qty = 1\<rparr>],
           status = paid, createdAt = daysAgo 1\<rparr>,
          \<lparr>order_id = u4, tableId = ''t4'',
           items = [\<lparr>menuItemId = ''mi_salad'', modifierName = None, qty = 2\<rparr>],
           status = paid, createdAt = daysAgo 7\<rparr>])"

text \<open>
  A small state for worked examples: the seed menu, three tables and the four seed
  orders, seeded at the instant 1700000000000 (14 November 2023, 22:13:20 UTC).
\<close>

definition exampleState :: "rat AppState" where
  "exampleState =
     \<lparr>menuItems = seedMenu,
      tables = [\<lparr>table_id = ''t1'', table_name = ''Table 1'', table_status = occupied\<rparr>,
                \<lparr>table_id = ''t2'', table_name = ''Table 2'', table_status = occupied\<rparr>,
                \<lparr>table_id = ''t3'', table_name = ''Table 3'', table_status = available\<rparr>],
      orders = seedOrders ''o1'' ''o2'' ''o3'' ''o4'' 1700000000000\<rparr>"


section \<open>IEEE 754 binary64, the arithmetic of a JavaScript number\<close>

text \<open>
  A JavaScript number is a binary64 floating-point value, and \<^verbatim>\<open>+\<close> and \<^verbatim>\<open>*\<close> round
  the exact result to the nearest such value, ties to the even significand. \<open>double\<close>
  instantiates the number type \<open>'n\<close> with this arithmetic. A finite value is the
  rational number it denotes (the two zeros are one value); \<open>NonFinite\<close> stands for
  \<^verbatim>\<open>Infinity\<close>, \<^verbatim>\<open>-Infinity\<close> and \<^verbatim>\<open>NaN\<close>, which addition and multiplication
  never lead out of.

  \<open>expo q\<close> is the binary exponent of a positive \<open>q\<close> (lemma \<open>expo_bounds\<close> below);
  \<open>round64\<close> rounds to 53 significant bits, to multiples of \<open>2\<^sup>-\<^sup>1\<^sup>0\<^sup>7\<^sup>4\<close> in the subnormal
  range, and overflows from \<open>2\<^sup>1\<^sup>0\<^sup>2\<^sup>4\<close> on. \<open>round64 (1 / 10)\<close> is the number the
  literal \<^verbatim>\<open>0.1\<close> denotes.
\<close>

definition expo :: "rat \<Rightarrow> int" where
  "expo q = (if 1 \<le> q then bitlen \<lfloor>q\<rfloor> - 1 else - bitlen (\<lceil>1 / q\<rceil> - 1))"

definition roundHalfEven :: "rat \<Rightarrow> int" where
  "roundHalfEven x =
     (let f = \<lfloor>x\<rfloor>; d = x - of_int f
      in if d < 1 / 2 then f else if 1 / 2 < d then f + 1 else if even f then f else f + 1)"

datatype double = Finite rat | NonFinite

definition round64 :: "rat \<Rightarrow> double" where
  "round64 q =
     (if q = 0 then Finite 0
      else let e = max (expo \<bar>q\<bar>) (- 1022);
               ulp = 2 powi (e - 52);
               v = of_int (roundHalfEven (q / ulp)) * ulp
           in if 2 powi 1024 \<le> \<bar>v\<bar> then NonFinite else Finite v)"

instantiation double :: "{zero,plus,times}"
begin

definition zero_double :: double where
  "zero_double = Finite 0"

fun plus_double :: "double \<Rightarrow> double \<Rightarrow> double" where
  "plus_double (Finite a) (Finite b) = round64 (a + b)"
| "plus_double _ _ = NonFinite"

fun times_double :: "double \<Rightarrow> double \<Rightarrow> double" where
  "times_double (Finite a) (Finite b) = round64 (a * b)"
| "times_double _ _ = NonFinite"

instance ..

end


text \<open>
  \<^verbatim>\<open>-\<close> rounds as \<^verbatim>\<open>+\<close> does. \<^verbatim>\<open><\<close> and \<^verbatim>\<open><=\<close> compare finite values as the
  numbers they are; a comparison with \<open>NonFinite\<close> is false, as every comparison with
  \<^verbatim>\<open>NaN\<close> is (\<open>NonFinite\<close> does not keep the sign of an infinity; the quantities
  compared are finite, as the order composer and \<^verbatim>\<open>JSON.parse\<close> give no other, and
  the theorems below compare finite values only).
\<close>

instantiation double :: "{minus,ord}"
begin

fun minus_double :: "double \<Rightarrow> double \<Rightarrow> double" where
  "minus_double (Finite a) (Finite b) = round64 (a - b)"
| "minus_double _ _ = NonFinite"

fun less_double :: "double \<Rightarrow> double \<Rightarrow> bool" where
  "less_double (Finite a) (Finite b) = (a < b)"
| "less_double _ _ = False"

fun less_eq_double :: "double \<Rightarrow> double \<Rightarrow> bool" where
  "less_eq_double (Finite a) (Finite b) = (a \<le> b)"
| "less_eq_double _ _ = False"

instance ..

end

text \<open>
  A menu and a state for worked examples in binary64: three items priced 0.1, 0.2 and
  0.3, and three orders of today on one table, of one item each (0.3, 0.2, 0.1), the
  second still in progress.
\<close>

definition roundingMenu :: "double MenuItem list" where
  "roundingMenu =
     [\<lparr>mi_id = ''a'', mi_name = ''Mint'', category = ''Extras'',
       price = round64 (1 / 10), modifiers = []\<rparr>,
      \<lparr>mi_id = ''b'', mi_name = ''Lime'', category = ''Extras'',
       price = round64 (2 / 10), modifiers = []\<rparr>,
      \<lparr>mi_id = ''c'', mi_name = ''Ice'', category = ''Extras'',
       price = round64 (3 / 10), modifiers = []\<rparr>]"


text \<open>
  A rational amount is on the grid of \<open>k\<close> when it is a multiple of \<open>2\<^sup>-\<^sup>k\<close> of magnitude
  below \<open>2\<^sup>5\<^sup>3\<^sup>-\<^sup>k\<close>: an integer of less than 54 bits, divided by \<open>2\<^sup>k\<close>. For \<open>k\<close> up to
  1074 such an amount is a binary64 value (lemma \<open>round64_onGrid\<close> below). With
  \<open>k = 2\<close> the grid holds the multiples of 0.25 below \<open>2\<^sup>5\<^sup>1\<close>.
\<close>

definition onGrid :: "nat \<Rightarrow> rat \<Rightarrow> bool" where
  "onGrid k q \<longleftrightarrow> of_int \<lfloor>q * 2 ^ k\<rfloor> = q * 2 ^ k \<and> \<bar>q * 2 ^ k\<bar> < 2 ^ 53"

text \<open>
  Menu items, orders and a state with rational amounts, read as the same data with
  binary64 amounts: each amount \<open>q\<close> becomes \<open>Finite q\<close>, all else is untouched. The
  reading is faithful for data whose amounts are binary64 values.
\<close>

definition dblModifier :: "rat Modifier \<Rightarrow> double Modifier" where
  "dblModifier m = \<lparr>mod_name = mod_name m, priceDelta = Finite (priceDelta m)\<rparr>"

definition dblMenuItem :: "rat MenuItem \<Rightarrow> double MenuItem" where
  "dblMenuItem m =
     \<lparr>mi_id = mi_id m, mi_name = mi_name m, category = category m,
      price = Finite (price m), modifiers = map dblModifier (modifiers m)\<rparr>"

definition dblOrderItem :: "rat OrderItem \<Rightarrow> double OrderItem" where
  "dblOrderItem it =
     \<lparr>menuItemId = menuItemId it, modifierName = modifierName it, qty = Finite (qty it)\<rparr>"

definition dblOrder :: "rat Order \<Rightarrow> double Order" where
  "dblOrder od =
     \<lparr>order_id = order_id od, tableId = tableId od, items = map dblOrderItem (items od),
      status = status od, createdAt = createdAt od\<rparr>"

definition dblIndex :: "(string \<rightharpoonup> rat MenuItem) \<Rightarrow> (string \<rightharpoonup> double MenuItem)" where
  "dblIndex menuIndex = (\<lambda>k. map_option dblMenuItem (menuIndex k))"



section \<open>The specification's wording, as definitions\<close>

text \<open>
  The contribution of one order line, as the specification words it: nothing for a
  \<^verbatim>\<open>menuItemId\<close> absent from the index, otherwise base price plus modifier delta,
  times the quantity; where \<^verbatim>\<open>modifierName\<close> is set, the delta is that of the first
  modifier of the item with exactly that name, and zero when none has it; where it is
  not set the delta is zero.
\<close>

definition lineContribution_spec ::
    "(string \<rightharpoonup> 'n MenuItem) \<Rightarrow> ('n::{zero,plus,times}) OrderItem \<Rightarrow> 'n" where
  "lineContribution_spec menuIndex it =
     (case menuIndex (menuItemId it) of
        None \<Rightarrow> 0
      | Some mi \<Rightarrow>
          (price mi +
             (case modifierName it of
                None \<Rightarrow> 0
              | Some n \<Rightarrow>
                  (case find (\<lambda>m. mod_name m = n) (modifiers mi) of
                     None \<Rightarrow> 0
                   | Some m \<Rightarrow> priceDelta m)))
          * qty it)"




section \<open>The summands of the code\<close>

text \<open>
  What one order line adds to the total in \<^verbatim>\<open>computeOrderTotal\<close> when the index is
  read through its own properties: nothing for a \<^verbatim>\<open>menuItemId\<close> that is no key,
  otherwise the unit price times the quantity. The unit price is the base price plus
  the delta of the first modifier with exactly the given name; the delta is zero when
  \<^verbatim>\<open>modifierName\<close> is \<^verbatim>\<open>undefined\<close> or the empty string, which the code takes for no
  name, and when no modifier has the name.
\<close>

definition unitPrice :: "('n::{zero,plus}) MenuItem \<Rightarrow> 'n OrderItem \<Rightarrow> 'n" where
  "unitPrice mi it =
     price mi +
       (case modifierName it of
          None \<Rightarrow> 0
        | Some n \<Rightarrow>
            if n = [] then 0
            else (case find (\<lambda>m. mod_name m = n) (modifiers mi) of
                    None \<Rightarrow> 0
                  | Some m \<Rightarrow> priceDelta m))"

definition lineContribution ::
    "(string \<rightharpoonup> 'n MenuItem) \<Rightarrow> ('n::{zero,plus,times}) OrderItem \<Rightarrow> 'n" where
  "lineContribution menuIndex it =
     (case menuIndex (menuItemId it) of
        None \<Rightarrow> 0
      | Some mi \<Rightarrow>
          (price mi +
             (case modifierName it of
                None \<Rightarrow> 0
              | Some n \<Rightarrow>
                  if n = [] then 0
                  else (case find (\<lambda>m. mod_name m = n) (modifiers mi) of
                          None \<Rightarrow> 0
                        | Some m \<Rightarrow> priceDelta m)))
          * qty it)"


text \<open>
  A line reads an inherited member when its \<^verbatim>\<open>menuItemId\<close> is no key of the index
  and is the name of a member of \<^verbatim>\<open>Object.prototype\<close>.
\<close>

definition readsInherited :: "(string \<rightharpoonup> 'n MenuItem) \<Rightarrow> string \<Rightarrow> bool" where
  "readsInherited menuIndex k \<longleftrightarrow> menuIndex k = None \<and> map_of objectPrototype k \<noteq> None"

text \<open>
  On such a line with a modifier name that is not empty, \<^verbatim>\<open>mi.modifiers.find\<close> throws.
\<close>

definition throwsOn :: "(string \<rightharpoonup> 'n MenuItem) \<Rightarrow> 'n OrderItem \<Rightarrow> bool" where
  "throwsOn menuIndex it \<longleftrightarrow>
     readsInherited menuIndex (menuItemId it)
     \<and> modifierName it \<noteq> None \<and> modifierName it \<noteq> Some []"

section \<open>Orders that binary64 arithmetic totals without rounding\<close>

text \<open>
  A line is exact on the grid of \<open>k\<close> when its item is absent from the index, or its
  unit price and its contribution are on the grid. An order is exact when each line is
  and the magnitudes of the contributions add up to less than \<open>2\<^sup>5\<^sup>3\<^sup>-\<^sup>k\<close>: then every
  partial sum is on the grid, whatever the order of the lines.
\<close>

definition exactLine :: "nat \<Rightarrow> (string \<rightharpoonup> rat MenuItem) \<Rightarrow> rat OrderItem \<Rightarrow> bool" where
  "exactLine k menuIndex it =
     (case menuIndex (menuItemId it) of
        None \<Rightarrow> True
      | Some mi \<Rightarrow> onGrid k (unitPrice mi it) \<and> onGrid k (unitPrice mi it * qty it))"

definition exactOrder :: "nat \<Rightarrow> (string \<rightharpoonup> rat MenuItem) \<Rightarrow> rat Order \<Rightarrow> bool" where
  "exactOrder k menuIndex od \<longleftrightarrow>
     (\<forall>it \<in> set (items od). exactLine k menuIndex it)
     \<and> (\<Sum>it\<leftarrow>items od. \<bar>lineContribution menuIndex it\<bar>) * 2 ^ k < 2 ^ 53"

text \<open>
  The orders the "Today" sum counts, and the same condition for a day: each counted
  order is exact and the magnitudes of the totals add up to less than \<open>2\<^sup>5\<^sup>3\<^sup>-\<^sup>k\<close>.
\<close>

definition countedToday :: "int \<Rightarrow> int \<Rightarrow> 'n Order list \<Rightarrow> 'n Order list" where
  "countedToday tz now os =
     filter (\<lambda>od. (status od = paid \<or> status od = served) \<and> isSameDay tz (createdAt od) now) os"



section \<open>Binary64 arithmetic: exponent, evaluation, and the loss of associativity\<close>

text \<open>\<open>expo q\<close> is the exponent of the power of two at or below a positive \<open>q\<close>.\<close>

lemma expo_ge1:
  assumes "1 \<le> q"
  shows "2 powi (expo q) \<le> q \<and> q < 2 powi (expo q + 1)"
proof -
  let ?n = "\<lfloor>q\<rfloor>"
  have pos: "0 < ?n" using assms by simp
  have b: "2 ^ nat (bitlen ?n - 1) \<le> ?n" "?n < 2 ^ nat (bitlen ?n)"
    using bitlen_bounds[OF pos] by simp_all
  have ge1: "1 \<le> bitlen ?n" using pos by (simp add: bitlen_alt_def)
  have e: "expo q = bitlen ?n - 1" using assms by (simp add: expo_def)
  have "(2::rat) powi (bitlen ?n - 1) = 2 ^ nat (bitlen ?n - 1)"
    using ge1 by (simp add: power_int_def)
  also have "\<dots> = of_int (2 ^ nat (bitlen ?n - 1))" by simp
  also have "\<dots> \<le> of_int ?n" using b(1) by (simp only: of_int_le_iff)
  also have "\<dots> \<le> q" by simp
  finally have lo: "2 powi (expo q) \<le> q" by (simp add: e)
  have "?n + 1 \<le> 2 ^ nat (bitlen ?n)" using b(2) by simp
  then have "(of_int (?n + 1) :: rat) \<le> of_int (2 ^ nat (bitlen ?n))" by (simp only: of_int_le_iff)
  moreover have "q < of_int (?n + 1)" by linarith
  ultimately have "q < of_int (2 ^ nat (bitlen ?n))" by linarith
  also have "\<dots> = 2 powi (bitlen ?n)" using ge1 by (simp add: power_int_def)
  finally have hi: "q < 2 powi (expo q + 1)" by (simp add: e)
  from lo hi show ?thesis ..
qed

lemma expo_lt1:
  assumes "0 < q" "q < 1"
  shows "2 powi (expo q) \<le> q \<and> q < 2 powi (expo q + 1)"
proof -
  let ?m = "\<lceil>1 / q\<rceil>"
  let ?k = "bitlen (?m - 1)"
  have r: "1 < 1 / q" using assms by simp
  have m2: "2 \<le> ?m" using r by linarith
  have pos: "0 < ?m - 1" using m2 by simp
  have b: "2 ^ nat (?k - 1) \<le> ?m - 1" "?m - 1 < 2 ^ nat ?k"
    using bitlen_bounds[OF pos] by simp_all
  have k1: "1 \<le> ?k" using pos by (simp add: bitlen_alt_def)
  have e: "expo q = - ?k" using assms by (simp add: expo_def)
  have "1 / q \<le> of_int ?m" by simp
  also have "(of_int ?m :: rat) \<le> of_int (2 ^ nat ?k)" using b(2) by (simp only: of_int_le_iff)
  finally have "1 / q \<le> 2 ^ nat ?k" by simp
  then have "1 \<le> 2 ^ nat ?k * q" using assms(1) by (simp add: field_simps)
  then have "1 / 2 ^ nat ?k \<le> q" by (simp add: field_simps)
  moreover have "(2::rat) powi (- ?k) = 1 / 2 ^ nat ?k"
    using k1 by (simp add: power_int_def field_simps)
  ultimately have lo: "2 powi (expo q) \<le> q" by (simp add: e)
  have "(of_int (2 ^ nat (?k - 1)) :: rat) \<le> of_int (?m - 1)" using b(1) by (simp only: of_int_le_iff)
  moreover have "of_int (?m - 1) < 1 / q" by linarith
  ultimately have "(2 ^ nat (?k - 1) :: rat) < 1 / q" by simp
  then have "2 ^ nat (?k - 1) * q < 1" using assms(1) by (simp add: field_simps)
  then have "q < 1 / 2 ^ nat (?k - 1)" by (simp add: field_simps)
  moreover have "(2::rat) powi (- ?k + 1) = 1 / 2 ^ nat (?k - 1)"
  proof (cases "?k = 1")
    case True then show ?thesis by simp
  next
    case False
    then have "- ?k + 1 < 0" using k1 by simp
    then show ?thesis by (simp add: power_int_def field_simps nat_diff_distrib)
  qed
  ultimately have hi: "q < 2 powi (expo q + 1)" by (simp add: e)
  from lo hi show ?thesis ..
qed

lemma expo_bounds:
  assumes "0 < q"
  shows "2 powi (expo q) \<le> q \<and> q < 2 powi (expo q + 1)"
  using assms expo_ge1[of q] expo_lt1[of q] by (cases "1 \<le> q") simp_all

text \<open>Floors of rational literals, for evaluating \<open>round64\<close> by rewriting.\<close>

lemma floor_rat_numeral:
  "\<lfloor>numeral a / (numeral b :: rat)\<rfloor> = numeral a div numeral b"
  using floor_divide_of_int_eq[of "numeral a" "numeral b", where ?'a = rat] by simp

lemma ceiling_rat_numeral:
  "\<lceil>numeral a / (numeral b :: rat)\<rceil> = - ((- numeral a) div numeral b)"
  using floor_divide_of_int_eq[of "- numeral a" "numeral b", where ?'a = rat]
  by (simp add: ceiling_def)

lemma floor_rat_neg_numeral:
  "\<lfloor>- (numeral a / (numeral b :: rat))\<rfloor> = (- numeral a) div numeral b"
  using floor_divide_of_int_eq[of "- numeral a" "numeral b", where ?'a = rat] by simp

lemma floor_rat_one_numeral:
  "\<lfloor>1 / (numeral b :: rat)\<rfloor> = 1 div numeral b"
  using floor_divide_of_int_eq[of 1 "numeral b", where ?'a = rat] by simp

lemma floor_rat_neg_one_numeral:
  "\<lfloor>- (1 / (numeral b :: rat))\<rfloor> = (- 1) div numeral b"
  using floor_divide_of_int_eq[of "- 1" "numeral b", where ?'a = rat] by simp

lemma ceiling_rat_one_numeral:
  "\<lceil>1 / (numeral b :: rat)\<rceil> = - ((- 1) div numeral b)"
  using floor_divide_of_int_eq[of "- 1" "numeral b", where ?'a = rat]
  by (simp add: ceiling_def)

lemmas ev = round64_def expo_def roundHalfEven_def compute_bitlen Let_def
  floor_rat_numeral ceiling_rat_numeral floor_rat_neg_numeral floor_rat_one_numeral
  floor_rat_neg_one_numeral ceiling_rat_one_numeral

text \<open>
  The literals 0.1, 0.2 and 0.3 as binary64 values; 0.1 + 0.2 is not 0.3, and
  addition is not associative.
\<close>

lemma double_literals:
  "round64 (1 / 10) = Finite (3602879701896397 / 36028797018963968)"
  "round64 (2 / 10) = Finite (3602879701896397 / 18014398509481984)"
  "round64 (3 / 10) = Finite (5404319552844595 / 18014398509481984)"
  by (simp_all add: ev)

lemma double_sum_not_exact:
  "round64 (1 / 10) + round64 (2 / 10) = Finite (5404319552844596 / 18014398509481984)"
  "round64 (1 / 10) + round64 (2 / 10) \<noteq> round64 (3 / 10)"
  by (simp_all add: ev)

lemma double_add_not_associative:
  "(round64 (1 / 10) + round64 (2 / 10)) + round64 (3 / 10)
     \<noteq> round64 (1 / 10) + (round64 (2 / 10) + round64 (3 / 10))"
  by (simp add: ev)

text \<open>
  Rounding leaves an amount on the grid as it is, and a sum of amounts on the grid,
  taken from left to right, is exact when the magnitudes add up to less than \<open>2\<^sup>5\<^sup>3\<^sup>-\<^sup>k\<close>.
\<close>

lemma roundHalfEven_of_int: "roundHalfEven (of_int n) = n"
  by (simp add: roundHalfEven_def)

lemma expo_le:
  assumes "0 < q" "q < 2 powi j"
  shows "expo q < j"
proof (rule ccontr)
  assume "\<not> expo q < j"
  then have "j \<le> expo q" by simp
  then have "(2::rat) powi j \<le> 2 powi (expo q)"
    by (intro power_int_increasing) simp_all
  also have "\<dots> \<le> q" using expo_bounds[OF assms(1)] by simp
  finally show False using assms(2) by simp
qed

lemma round64_exact_aux:
  fixes m :: int and k :: nat
  assumes m: "m \<noteq> 0" "\<bar>m\<bar> < 2 ^ 53" and k: "k \<le> 1074"
  shows "round64 (of_int m / 2 ^ k) = Finite (of_int m / 2 ^ k)"
proof -
  define q :: rat where "q = of_int m / 2 ^ k"
  define e where "e = max (expo \<bar>q\<bar>) (- 1022)"
  have q0: "q \<noteq> 0" using m(1) by (simp add: q_def)
  have apos: "0 < \<bar>q\<bar>" using q0 by simp
  have "\<bar>q\<bar> = of_int \<bar>m\<bar> / 2 ^ k" by (simp add: q_def abs_divide)
  also have "\<dots> < 2 ^ 53 / 2 ^ k"
  proof -
    have "(of_int \<bar>m\<bar> :: rat) < of_int (2 ^ 53)" using m(2) by (simp only: of_int_less_iff)
    then show ?thesis by (simp add: divide_strict_right_mono)
  qed
  also have "\<dots> = 2 powi (53 - int k)"
    by (simp add: power_int_diff)
  finally have qlt: "\<bar>q\<bar> < 2 powi (53 - int k)" .
  then have "expo \<bar>q\<bar> < 53 - int k" by (rule expo_le[OF apos])
  then have e_le: "e \<le> 52 - int k" using k by (simp add: e_def)
  define j where "j = nat (52 - int k - e)"
  have j: "int j = 52 - int k - e" using e_le by (simp add: j_def)
  have ulp: "(2::rat) powi (e - 52) = 1 / (2 ^ k * 2 ^ j)"
  proof -
    have "e - 52 = - (int k + int j)" using j by simp
    then have "(2::rat) powi (e - 52) = 2 powi (- (int k + int j))" by simp
    also have "\<dots> = inverse (2 powi (int k + int j))" by (simp only: power_int_minus)
    also have "\<dots> = inverse (2 ^ k * 2 ^ j)" by (simp add: power_int_add)
    finally show ?thesis by (simp add: inverse_eq_divide)
  qed
  have quot: "q / 2 powi (e - 52) = of_int (m * 2 ^ j)"
    by (simp add: ulp q_def)
  have v: "of_int (roundHalfEven (q / 2 powi (e - 52))) * 2 powi (e - 52) = q"
    unfolding quot roundHalfEven_of_int by (simp add: ulp q_def)
  have small: "\<not> 2 powi 1024 \<le> \<bar>q\<bar>"
  proof -
    have "(2::rat) powi (53 - int k) \<le> 2 powi 1024" by (intro power_int_increasing) simp_all
    then show ?thesis using qlt by (simp del: power_int_numeral)
  qed
  have "round64 q = Finite q"
    unfolding round64_def Let_def e_def[symmetric] v using q0 small by (simp del: power_int_numeral)
  then show ?thesis by (simp only: q_def)
qed

lemma round64_exact:
  fixes m :: int and k :: nat
  assumes "\<bar>m\<bar> < 2 ^ 53" "k \<le> 1074"
  shows "round64 (of_int m / 2 ^ k) = Finite (of_int m / 2 ^ k)"
proof (cases "m = 0")
  case True
  then show ?thesis by (simp add: round64_def)
next
  case False
  then show ?thesis using assms by (rule round64_exact_aux)
qed

lemma round64_onGrid:
  assumes "k \<le> 1074" "onGrid k q"
  shows "round64 q = Finite q"
proof -
  define m where "m = \<lfloor>q * 2 ^ k\<rfloor>"
  have mq: "of_int m = q * 2 ^ k" using assms(2) by (simp add: onGrid_def m_def)
  then have q: "q = of_int m / 2 ^ k" by (simp add: field_simps)
  have "\<bar>(of_int m :: rat)\<bar> < 2 ^ 53" using assms(2) mq by (simp add: onGrid_def)
  then have "(of_int \<bar>m\<bar> :: rat) < of_int (2 ^ 53)" by simp
  then have "\<bar>m\<bar> < 2 ^ 53" by (simp only: of_int_less_iff)
  then have "round64 (of_int m / 2 ^ k) = Finite (of_int m / 2 ^ k)"
    using assms(1) by (rule round64_exact)
  then show ?thesis by (simp only: q[symmetric])
qed

lemma multiple_add:
  assumes "of_int \<lfloor>a * 2 ^ k\<rfloor> = a * (2 ^ k :: rat)" "of_int \<lfloor>b * 2 ^ k\<rfloor> = b * (2 ^ k :: rat)"
  shows "of_int \<lfloor>(a + b) * 2 ^ k\<rfloor> = (a + b) * (2 ^ k :: rat)"
proof -
  have "(a + b) * 2 ^ k = a * 2 ^ k + b * 2 ^ k" by (rule distrib_right)
  also have "\<dots> = of_int \<lfloor>a * 2 ^ k\<rfloor> + of_int \<lfloor>b * 2 ^ k\<rfloor>"
    by (simp only: assms)
  also have "\<dots> = of_int (\<lfloor>a * 2 ^ k\<rfloor> + \<lfloor>b * 2 ^ k\<rfloor>)" by (simp only: of_int_add)
  finally have "(a + b) * 2 ^ k = of_int (\<lfloor>a * 2 ^ k\<rfloor> + \<lfloor>b * 2 ^ k\<rfloor>)" .
  then show ?thesis by (simp only: floor_of_int)
qed


lemma foldl_plus_exact:
  assumes k: "k \<le> 1074"
    and s: "of_int \<lfloor>s * 2 ^ k\<rfloor> = s * (2 ^ k :: rat)"
    and cs: "\<forall>c \<in> set cs. of_int \<lfloor>c * 2 ^ k\<rfloor> = c * (2 ^ k :: rat)"
    and bound: "(\<bar>s\<bar> + (\<Sum>c\<leftarrow>cs. \<bar>c\<bar>)) * 2 ^ k < 2 ^ 53"
  shows "foldl (+) (Finite s) (map Finite cs) = Finite (s + sum_list cs)"
  using s cs bound
proof (induction cs arbitrary: s)
  case Nil
  show ?case by simp
next
  case (Cons c cs)
  have mult: "of_int \<lfloor>(s + c) * 2 ^ k\<rfloor> = (s + c) * (2 ^ k :: rat)"
    using Cons.prems(1,2) by (intro multiple_add) simp_all
  have tail_nonneg: "0 \<le> (\<Sum>c\<leftarrow>cs. \<bar>c\<bar>)" by (rule sum_list_nonneg) auto
  have "\<bar>s + c\<bar> * 2 ^ k \<le> (\<bar>s\<bar> + \<bar>c\<bar>) * 2 ^ k"
    by (intro mult_right_mono) simp_all
  also have "\<dots> \<le> (\<bar>s\<bar> + (\<bar>c\<bar> + (\<Sum>c\<leftarrow>cs. \<bar>c\<bar>))) * 2 ^ k"
    using tail_nonneg by (intro mult_right_mono) simp_all
  finally have le: "\<bar>s + c\<bar> * 2 ^ k \<le> (\<bar>s\<bar> + (\<bar>c\<bar> + (\<Sum>c\<leftarrow>cs. \<bar>c\<bar>))) * 2 ^ k" .
  have "\<bar>(s + c) * 2 ^ k\<bar> = \<bar>s + c\<bar> * 2 ^ k" by (simp add: abs_mult)
  also have "\<dots> < 2 ^ 53"
  proof -
    have "(\<bar>s\<bar> + (\<bar>c\<bar> + (\<Sum>c\<leftarrow>cs. \<bar>c\<bar>))) * 2 ^ k < (2 ^ 53 :: rat)"
      using Cons.prems(3) by (simp only: list.map sum_list.Cons)
    with le show ?thesis by (rule order_le_less_trans)
  qed
  finally have b1: "\<bar>(s + c) * 2 ^ k\<bar> < 2 ^ 53" .
  have grid: "onGrid k (s + c)" using mult b1 by (simp add: onGrid_def)
  have step: "round64 (s + c) = Finite (s + c)"
    by (rule round64_onGrid[OF k grid])
  have b2: "(\<bar>s + c\<bar> + (\<Sum>c\<leftarrow>cs. \<bar>c\<bar>)) * 2 ^ k < 2 ^ 53"
  proof -
    have "(\<bar>s + c\<bar> + (\<Sum>c\<leftarrow>cs. \<bar>c\<bar>)) * 2 ^ k
            \<le> (\<bar>s\<bar> + (\<bar>c\<bar> + (\<Sum>c\<leftarrow>cs. \<bar>c\<bar>))) * 2 ^ k"
      by (intro mult_right_mono) simp_all
    moreover have "(\<bar>s\<bar> + (\<bar>c\<bar> + (\<Sum>c\<leftarrow>cs. \<bar>c\<bar>))) * 2 ^ k < (2 ^ 53 :: rat)"
      using Cons.prems(3) by (simp only: list.map sum_list.Cons)
    ultimately show ?thesis by (rule order_le_less_trans)
  qed
  have "foldl (+) (Finite (s + c)) (map Finite cs) = Finite ((s + c) + sum_list cs)"
    using mult Cons.prems(2) b2 by (intro Cons.IH) simp_all
  then show ?case by (simp add: step add.assoc)
qed

section \<open>Order pricing\<close>

lemma foldl_add_sum_list:
  fixes a :: "'a::monoid_add"
  shows "foldl (\<lambda>s x. s + f x) a xs = a + sum_list (map f xs)"
  by (induction xs arbitrary: a) (simp_all add: add.assoc)

lemma computeOrderTotal_step:
  fixes s :: "'n::{monoid_add,times}"
  shows "(case menuIndex (menuItemId it) of
            None \<Rightarrow> s
          | Some mi \<Rightarrow>
              let mod' = (case modifierName it of
                           None \<Rightarrow> None
                         | Some n \<Rightarrow> if n = [] then None
                                    else find (\<lambda>m. mod_name m = n) (modifiers mi));
                  price = price mi + (case mod' of None \<Rightarrow> 0 | Some m \<Rightarrow> priceDelta m)
              in s + price * qty it)
         = s + lineContribution menuIndex it"
  by (simp add: lineContribution_def Let_def split: option.splits)

lemma computeOrderTotal_sum_list:
  fixes order :: "('n::{monoid_add,times}) Order"
  shows "computeOrderTotal order menuIndex
           = sum_list (map (lineContribution menuIndex) (items order))"
  unfolding computeOrderTotal_def computeOrderTotal_step
  by (simp add: foldl_add_sum_list)

lemma computeOrderTotal_mset:
  fixes o1 o2 :: "('n::{comm_monoid_add,times}) Order"
  assumes "mset (items o2) = mset (items o1)"
  shows "computeOrderTotal o2 menuIndex = computeOrderTotal o1 menuIndex"
proof -
  have "mset (map (lineContribution menuIndex) (items o2))
          = mset (map (lineContribution menuIndex) (items o1))"
    using assms by (metis mset_map)
  then have "sum_list (map (lineContribution menuIndex) (items o2))
          = sum_list (map (lineContribution menuIndex) (items o1))"
    by (metis sum_mset_sum_list)
  then show ?thesis by (simp add: computeOrderTotal_sum_list)
qed

lemma computeOrderTotal_Nil:
  "items od = [] \<Longrightarrow> computeOrderTotal od menuIndex = 0"
  by (simp add: computeOrderTotal_def)

lemma computeOrderTotal_status [simp]:
  "computeOrderTotal (od\<lparr>status := st\<rparr>) menuIndex = computeOrderTotal od menuIndex"
  by (simp add: computeOrderTotal_def)

lemma computeOrderTotal_foldl_gen:
  fixes a :: "'m::{zero,plus,times}"
  shows "foldl (\<lambda>sum it.
        case menuIndex (menuItemId it) of
          None \<Rightarrow> sum
        | Some mi \<Rightarrow>
            let mod' = (case modifierName it of
                         None \<Rightarrow> None
                       | Some n \<Rightarrow> if n = [] then None
                                  else find (\<lambda>m. mod_name m = n) (modifiers mi));
                price = price mi + (case mod' of None \<Rightarrow> 0 | Some m \<Rightarrow> priceDelta m)
            in sum + price * qty it) a its
     = foldl (\<lambda>sum it. sum + lineContribution menuIndex it) a
         (filter (\<lambda>it. menuIndex (menuItemId it) \<noteq> None) its)"
proof (induction its arbitrary: a)
  case Nil
  show ?case by simp
next
  case (Cons it its)
  show ?case
  proof (cases "menuIndex (menuItemId it)")
    case None
    then show ?thesis by (simp add: Cons.IH)
  next
    case (Some mi)
    then show ?thesis
      by (simp add: Cons.IH lineContribution_def Let_def split: option.splits)
  qed
qed

text \<open>
  On an order none of whose lines reads an inherited member, the code returns the
  number that \<open>computeOrderTotal\<close> gives.
\<close>

lemma getProperty_own: "menuIndex k = Some mi \<Longrightarrow> getProperty menuIndex k = OwnItem mi"
  by (simp add: getProperty_def)

lemma getProperty_undefined:
  assumes "menuIndex k = None" and "\<not> readsInherited menuIndex k"
  shows "getProperty menuIndex k = Undefined"
proof -
  have "map_of objectPrototype k = None"
    using assms by (auto simp: readsInherited_def)
  then show ?thesis
    using assms(1) by (simp add: getProperty_def)
qed

lemma getProperty_inherited:
  assumes "readsInherited menuIndex k"
  shows "\<exists>nm. getProperty menuIndex k = Inherited nm"
proof -
  have "menuIndex k = None" and "map_of objectPrototype k \<noteq> None"
    using assms unfolding readsInherited_def by blast+
  then obtain nm where "map_of objectPrototype k = Some nm" by blast
  then show ?thesis
    using \<open>menuIndex k = None\<close> by (simp add: getProperty_def)
qed

lemma computeOrderTotal_js_foldl:
  fixes a :: "'m::{zero,plus,times}"
  assumes "\<forall>it \<in> set its. \<not> readsInherited menuIndex (menuItemId it)"
  shows "foldl (\<lambda>sum it.
        if sum = TypeError then TypeError
        else
          case getProperty menuIndex (menuItemId it) of
            Undefined \<Rightarrow> sum
          | OwnItem mi \<Rightarrow>
              let mod' = (case modifierName it of
                           None \<Rightarrow> None
                         | Some n \<Rightarrow> if n = [] then None
                                    else find (\<lambda>m. mod_name m = n) (modifiers mi));
                  price = price mi + (case mod' of None \<Rightarrow> 0 | Some m \<Rightarrow> priceDelta m)
              in addNumber sum (price * qty it)
          | Inherited nm \<Rightarrow>
              (case modifierName it of
                 None \<Rightarrow> NotANumber
               | Some n \<Rightarrow> if n = [] then NotANumber else TypeError))
       (Value a) its
     = Value (foldl (\<lambda>sum it. sum + lineContribution menuIndex it) a
         (filter (\<lambda>it. menuIndex (menuItemId it) \<noteq> None) its))"
  using assms
proof (induction its arbitrary: a)
  case Nil
  show ?case by simp
next
  case (Cons it its)
  have rest: "\<forall>it \<in> set its. \<not> readsInherited menuIndex (menuItemId it)"
    using Cons.prems by simp
  show ?case
  proof (cases "menuIndex (menuItemId it)")
    case None
    have "\<not> readsInherited menuIndex (menuItemId it)" using Cons.prems by simp
    with None have "getProperty menuIndex (menuItemId it) = Undefined"
      by (rule getProperty_undefined)
    then show ?thesis using None by (simp add: Cons.IH[OF rest])
  next
    case (Some mi)
    then have "getProperty menuIndex (menuItemId it) = OwnItem mi"
      by (rule getProperty_own)
    then show ?thesis
      using Some
      by (simp add: Cons.IH[OF rest] lineContribution_def Let_def split: option.splits)
  qed
qed

lemma computeOrderTotal_js_own:
  fixes od :: "('m::{zero,plus,times}) Order"
  assumes "\<forall>it \<in> set (items od). \<not> readsInherited menuIndex (menuItemId it)"
  shows "computeOrderTotal_js od menuIndex = Value (computeOrderTotal od menuIndex)"
  unfolding computeOrderTotal_js_def computeOrderTotal_def
  by (simp only: computeOrderTotal_js_foldl[OF assms] computeOrderTotal_foldl_gen)

lemma computeOrderTotal_js_sum_list:
  fixes od :: "('n::{monoid_add,times}) Order"
  assumes "\<forall>it \<in> set (items od). \<not> readsInherited menuIndex (menuItemId it)"
  shows "computeOrderTotal_js od menuIndex
           = Value (\<Sum>it\<leftarrow>items od. lineContribution menuIndex it)"
  by (simp only: computeOrderTotal_js_own[OF assms] computeOrderTotal_sum_list)

lemma computeOrderTotal_js_present:
  fixes od :: "('m::{zero,plus,times}) Order"
  assumes "\<forall>it \<in> set (items od). \<not> readsInherited menuIndex (menuItemId it)"
  shows "computeOrderTotal_js od menuIndex
           = Value (foldl (\<lambda>sum it. sum + lineContribution menuIndex it) 0
                      (filter (\<lambda>it. menuIndex (menuItemId it) \<noteq> None) (items od)))"
  unfolding computeOrderTotal_js_def
  by (rule computeOrderTotal_js_foldl[OF assms])

text \<open>
  On every order: the call throws where a line reads an inherited member with a
  modifier name, and otherwise returns \<^verbatim>\<open>NaN\<close> where a line reads an inherited member.
\<close>

lemma getProperty_not_inherited:
  "\<not> readsInherited menuIndex k \<Longrightarrow> getProperty menuIndex k \<noteq> Inherited nm"
  by (auto simp: getProperty_def readsInherited_def split: option.splits)

lemma addNumber_TypeError [simp]: "(addNumber acc x = TypeError) = (acc = TypeError)"
  by (cases acc) simp_all

lemma addNumber_NotANumber [simp]: "(addNumber acc x = NotANumber) = (acc = NotANumber)"
  by (cases acc) simp_all

lemma computeOrderTotal_js_foldl_outcome:
  fixes acc :: "('m::{zero,plus,times}) outcome"
  shows "(foldl (\<lambda>sum it.
        if sum = TypeError then TypeError
        else
          case getProperty menuIndex (menuItemId it) of
            Undefined \<Rightarrow> sum
          | OwnItem mi \<Rightarrow>
              let mod' = (case modifierName it of
                           None \<Rightarrow> None
                         | Some n \<Rightarrow> if n = [] then None
                                    else find (\<lambda>m. mod_name m = n) (modifiers mi));
                  price = price mi + (case mod' of None \<Rightarrow> 0 | Some m \<Rightarrow> priceDelta m)
              in addNumber sum (price * qty it)
          | Inherited nm \<Rightarrow>
              (case modifierName it of
                 None \<Rightarrow> NotANumber
               | Some n \<Rightarrow> if n = [] then NotANumber else TypeError))
       acc its = TypeError
      \<longleftrightarrow> acc = TypeError \<or> (\<exists>it \<in> set its. throwsOn menuIndex it))
   \<and> (foldl (\<lambda>sum it.
        if sum = TypeError then TypeError
        else
          case getProperty menuIndex (menuItemId it) of
            Undefined \<Rightarrow> sum
          | OwnItem mi \<Rightarrow>
              let mod' = (case modifierName it of
                           None \<Rightarrow> None
                         | Some n \<Rightarrow> if n = [] then None
                                    else find (\<lambda>m. mod_name m = n) (modifiers mi));
                  price = price mi + (case mod' of None \<Rightarrow> 0 | Some m \<Rightarrow> priceDelta m)
              in addNumber sum (price * qty it)
          | Inherited nm \<Rightarrow>
              (case modifierName it of
                 None \<Rightarrow> NotANumber
               | Some n \<Rightarrow> if n = [] then NotANumber else TypeError))
       acc its = NotANumber
      \<longleftrightarrow> acc \<noteq> TypeError \<and> \<not> (\<exists>it \<in> set its. throwsOn menuIndex it)
          \<and> (acc = NotANumber \<or> (\<exists>it \<in> set its. readsInherited menuIndex (menuItemId it))))"
  (is "(foldl ?step acc its = TypeError \<longleftrightarrow> _) \<and> (foldl ?step acc its = NotANumber \<longleftrightarrow> _)")
proof (induction its arbitrary: acc)
  case Nil
  show ?case by auto
next
  case (Cons it its)
  have t: "?step acc it = TypeError \<longleftrightarrow> acc = TypeError \<or> throwsOn menuIndex it"
  proof (cases "readsInherited menuIndex (menuItemId it)")
    case True
    then obtain nm where "getProperty menuIndex (menuItemId it) = Inherited nm"
      using getProperty_inherited by blast
    then show ?thesis using True by (auto simp: throwsOn_def split: option.splits)
  next
    case False
    then have "\<forall>nm. getProperty menuIndex (menuItemId it) \<noteq> Inherited nm"
      by (simp add: getProperty_not_inherited)
    then show ?thesis using False
      by (cases "getProperty menuIndex (menuItemId it)") (auto simp: throwsOn_def Let_def)
  qed
  have n: "?step acc it = NotANumber \<longleftrightarrow>
             acc \<noteq> TypeError \<and> \<not> throwsOn menuIndex it
             \<and> (acc = NotANumber \<or> readsInherited menuIndex (menuItemId it))"
  proof (cases "readsInherited menuIndex (menuItemId it)")
    case True
    then obtain nm where "getProperty menuIndex (menuItemId it) = Inherited nm"
      using getProperty_inherited by blast
    then show ?thesis using True by (auto simp: throwsOn_def split: option.splits)
  next
    case False
    then have "\<forall>nm. getProperty menuIndex (menuItemId it) \<noteq> Inherited nm"
      by (simp add: getProperty_not_inherited)
    then show ?thesis using False
      by (cases "getProperty menuIndex (menuItemId it)") (auto simp: throwsOn_def Let_def)
  qed
  have "foldl ?step acc (it # its) = foldl ?step (?step acc it) its" by simp
  then show ?case
    using Cons.IH[of "?step acc it"] t n by (simp only: list.set) blast
qed

lemma computeOrderTotal_js_outcome:
  fixes od :: "('m::{zero,plus,times}) Order"
  shows "(computeOrderTotal_js od menuIndex = TypeError)
           = (\<exists>it \<in> set (items od). throwsOn menuIndex it)"
    and "(computeOrderTotal_js od menuIndex = NotANumber)
           = ((\<exists>it \<in> set (items od). readsInherited menuIndex (menuItemId it))
              \<and> \<not> (\<exists>it \<in> set (items od). throwsOn menuIndex it))"
  using computeOrderTotal_js_foldl_outcome[of menuIndex "Value 0" "items od"]
  unfolding computeOrderTotal_js_def by auto

text \<open>
  The summand of the code is the contribution the specification words, but for the
  empty modifier name, which the code takes for no name.
\<close>

lemma lineContribution_named:
  "modifierName it \<noteq> Some [] \<Longrightarrow> lineContribution menuIndex it = lineContribution_spec menuIndex it"
  by (simp add: lineContribution_def lineContribution_spec_def split: option.splits)

lemma lineContribution_empty_name:
  "modifierName it = Some []
     \<Longrightarrow> lineContribution menuIndex it = lineContribution_spec menuIndex (it\<lparr>modifierName := None\<rparr>)"
  by (simp add: lineContribution_def lineContribution_spec_def split: option.splits)

lemma lineContribution_spec_eq:
  "lineContribution menuIndex it
     = lineContribution_spec menuIndex
         (if modifierName it = Some [] then it\<lparr>modifierName := None\<rparr> else it)"
  by (simp add: lineContribution_named lineContribution_empty_name)

lemma computeOrderTotal_js_spec:
  fixes od :: "('n::{monoid_add,times}) Order"
  assumes "\<forall>it \<in> set (items od). \<not> readsInherited menuIndex (menuItemId it)"
  shows "computeOrderTotal_js od menuIndex
           = Value (\<Sum>it\<leftarrow>items od. lineContribution_spec menuIndex
                      (if modifierName it = Some [] then it\<lparr>modifierName := None\<rparr> else it))"
  by (simp only: computeOrderTotal_js_sum_list[OF assms] lineContribution_spec_eq)

text \<open>
  Claim C1, as the code has it. For every order and menu index where no line of the
  order reads a member that the index object inherits from \<^verbatim>\<open>Object.prototype\<close> (a
  \<^verbatim>\<open>menuItemId\<close> such as \<^verbatim>\<open>constructor\<close> that is no menu id), the call of
  \<^verbatim>\<open>computeOrderTotal\<close>, which is \<open>computeOrderTotal_js\<close>, returns a number, without
  an error: the sum over the order's items of (base price +
  modifier delta) times quantity, where an item whose \<^verbatim>\<open>menuItemId\<close> is absent from the
  index contributes 0, and the delta is 0 for a modifier name with no exact match and
  for the empty modifier name, which counts as no name.

  First for exact arithmetic (a monoid under addition): the total is the sum of the line
  contributions as the specification words them, an empty modifier name taken for none;
  in other words, the sum of the summands of the code. Then for any arithmetic, binary64
  included: the total is the sum, taken from left to right and starting at 0, of the
  summands of the lines whose item is on the menu, and it is the value of
  \<open>computeOrderTotal\<close> on the own properties. The summand of a line is the
  contribution the specification words when its modifier name is not the empty string,
  and otherwise the one of the line without a modifier name. Last, on every order and in
  any arithmetic: the call throws a \<^verbatim>\<open>TypeError\<close> exactly when a line reads an inherited
  member with a modifier name that is not empty, and returns \<^verbatim>\<open>NaN\<close> exactly when a line
  reads an inherited member and no line throws.
\<close>

theorem computeOrderTotal_spec:
  fixes order :: "('n::{monoid_add,times}) Order"
    and order' :: "('m::{zero,plus,times}) Order"
    and line line' :: "('m::{zero,plus,times}) OrderItem"
  shows "((\<forall>it \<in> set (items order). \<not> readsInherited menuIndex (menuItemId it)) \<longrightarrow>
            computeOrderTotal_js order menuIndex
              = Value (\<Sum>it\<leftarrow>items order. lineContribution_spec menuIndex
                         (if modifierName it = Some [] then it\<lparr>modifierName := None\<rparr> else it))
            \<and> computeOrderTotal_js order menuIndex
              = Value (\<Sum>it\<leftarrow>items order. lineContribution menuIndex it))
       \<and> ((\<forall>it \<in> set (items order'). \<not> readsInherited menuIndex' (menuItemId it)) \<longrightarrow>
            computeOrderTotal_js order' menuIndex'
              = Value (foldl (\<lambda>sum it. sum + lineContribution menuIndex' it) 0
                         (filter (\<lambda>it. menuIndex' (menuItemId it) \<noteq> None) (items order')))
            \<and> computeOrderTotal_js order' menuIndex'
              = Value (computeOrderTotal order' menuIndex'))
       \<and> (modifierName line \<noteq> Some [] \<longrightarrow>
            lineContribution menuIndex' line = lineContribution_spec menuIndex' line)
       \<and> (modifierName line' = Some [] \<longrightarrow>
            lineContribution menuIndex' line'
              = lineContribution_spec menuIndex' (line'\<lparr>modifierName := None\<rparr>))
       \<and> (computeOrderTotal_js order' menuIndex' = TypeError)
           = (\<exists>it \<in> set (items order'). throwsOn menuIndex' it)
       \<and> (computeOrderTotal_js order' menuIndex' = NotANumber)
           = ((\<exists>it \<in> set (items order'). readsInherited menuIndex' (menuItemId it))
              \<and> \<not> (\<exists>it \<in> set (items order'). throwsOn menuIndex' it))"
proof (intro conjI impI)
  assume h: "\<forall>it \<in> set (items order). \<not> readsInherited menuIndex (menuItemId it)"
  show "computeOrderTotal_js order menuIndex
              = Value (\<Sum>it\<leftarrow>items order. lineContribution_spec menuIndex
                         (if modifierName it = Some [] then it\<lparr>modifierName := None\<rparr> else it))"
    using h by (rule computeOrderTotal_js_spec)
  show "computeOrderTotal_js order menuIndex
              = Value (\<Sum>it\<leftarrow>items order. lineContribution menuIndex it)"
    using h by (rule computeOrderTotal_js_sum_list)
next
  assume h: "\<forall>it \<in> set (items order'). \<not> readsInherited menuIndex' (menuItemId it)"
  show "computeOrderTotal_js order' menuIndex'
              = Value (foldl (\<lambda>sum it. sum + lineContribution menuIndex' it) 0
                         (filter (\<lambda>it. menuIndex' (menuItemId it) \<noteq> None) (items order')))"
    using h by (rule computeOrderTotal_js_present)
  show "computeOrderTotal_js order' menuIndex' = Value (computeOrderTotal order' menuIndex')"
    using h by (rule computeOrderTotal_js_own)
next
  assume "modifierName line \<noteq> Some []"
  then show "lineContribution menuIndex' line = lineContribution_spec menuIndex' line"
    by (rule lineContribution_named)
next
  assume "modifierName line' = Some []"
  then show "lineContribution menuIndex' line'
              = lineContribution_spec menuIndex' (line'\<lparr>modifierName := None\<rparr>)"
    by (rule lineContribution_empty_name)
next
  show "(computeOrderTotal_js order' menuIndex' = TypeError)
           = (\<exists>it \<in> set (items order'). throwsOn menuIndex' it)"
    by (rule computeOrderTotal_js_outcome(1))
next
  show "(computeOrderTotal_js order' menuIndex' = NotANumber)
           = ((\<exists>it \<in> set (items order'). readsInherited menuIndex' (menuItemId it))
              \<and> \<not> (\<exists>it \<in> set (items order'). throwsOn menuIndex' it))"
    by (rule computeOrderTotal_js_outcome(2))
qed

text \<open>
  An order on the seed menu: two priced lines, a line whose item is on no menu and a
  line whose modifier no item has. The total is 24 + 9 + 0 + 11.
\<close>

lemma seed_lines_own:
  "\<forall>it \<in> set [\<lparr>menuItemId = ''mi_pizza'', modifierName = None, qty = 2\<rparr>,
                \<lparr>menuItemId = ''mi_coffee'', modifierName = Some ''Oat Milk'', qty = 2\<rparr>,
                \<lparr>menuItemId = ''gone'', modifierName = Some ''Bacon'', qty = 5\<rparr>,
                \<lparr>menuItemId = ''mi_burger'', modifierName = Some ''Ketchup'', qty = (1::rat)\<rparr>].
      \<not> readsInherited (menuIndexOf seedMenu) (menuItemId it)"
  by (simp add: readsInherited_def menuIndexOf_def seedMenu_def objectPrototype_def)

theorem computeOrderTotal_spec_witness:
  "\<not> (\<exists>it \<in> set [\<lparr>menuItemId = ''mi_pizza'', modifierName = None, qty = 2\<rparr>,
                   \<lparr>menuItemId = ''mi_coffee'', modifierName = Some ''Oat Milk'', qty = 2\<rparr>,
                   \<lparr>menuItemId = ''gone'', modifierName = Some ''Bacon'', qty = 5\<rparr>,
                   \<lparr>menuItemId = ''mi_burger'', modifierName = Some ''Ketchup'', qty = (1::rat)\<rparr>].
         readsInherited (menuIndexOf seedMenu) (menuItemId it))
   \<and> computeOrderTotal_js
        \<lparr>order_id = ''o1'', tableId = ''t1'',
         items = [\<lparr>menuItemId = ''mi_pizza'', modifierName = None, qty = 2\<rparr>,
                  \<lparr>menuItemId = ''mi_coffee'', modifierName = Some ''Oat Milk'', qty = 2\<rparr>,
                  \<lparr>menuItemId = ''gone'', modifierName = Some ''Bacon'', qty = 5\<rparr>,
                  \<lparr>menuItemId = ''mi_burger'', modifierName = Some ''Ketchup'', qty = 1\<rparr>],
         status = served, createdAt = 0\<rparr>
        (menuIndexOf seedMenu) = Value 44
   \<and> modifierName \<lparr>menuItemId = ''mi_coffee'', modifierName = Some ''Oat Milk'', qty = (2::rat)\<rparr>
       \<noteq> Some []
   \<and> lineContribution_spec (menuIndexOf seedMenu)
        \<lparr>menuItemId = ''mi_coffee'', modifierName = Some ''Oat Milk'', qty = 2\<rparr> = 9
   \<and> modifierName \<lparr>menuItemId = ''mi_coffee'', modifierName = Some [], qty = (2::rat)\<rparr>
       = Some []
   \<and> lineContribution (menuIndexOf seedMenu)
        \<lparr>menuItemId = ''mi_coffee'', modifierName = Some [], qty = 2\<rparr> = 8"
proof -
  let ?its = "[\<lparr>menuItemId = ''mi_pizza'', modifierName = None, qty = 2\<rparr>,
               \<lparr>menuItemId = ''mi_coffee'', modifierName = Some ''Oat Milk'', qty = 2\<rparr>,
               \<lparr>menuItemId = ''gone'', modifierName = Some ''Bacon'', qty = 5\<rparr>,
               \<lparr>menuItemId = ''mi_burger'', modifierName = Some ''Ketchup'', qty = (1::rat)\<rparr>]"
  let ?od = "\<lparr>order_id = ''o1'', tableId = ''t1'', items = ?its,
              status = served, createdAt = 0\<rparr>"
  let ?named = "\<lparr>menuItemId = ''mi_coffee'', modifierName = Some ''Oat Milk'', qty = (2::rat)\<rparr>"
  let ?empty = "\<lparr>menuItemId = ''mi_coffee'', modifierName = Some [], qty = (2::rat)\<rparr>"
  note inst = computeOrderTotal_spec
     [where order = ?od and menuIndex = "menuIndexOf seedMenu"
        and order' = ?od and menuIndex' = "menuIndexOf seedMenu"
        and line = ?named and line' = ?empty]
  have own: "\<forall>it \<in> set (items ?od). \<not> readsInherited (menuIndexOf seedMenu) (menuItemId it)"
    using seed_lines_own by simp
  have w1: "\<not> (\<exists>it \<in> set ?its. readsInherited (menuIndexOf seedMenu) (menuItemId it))"
    using seed_lines_own by blast
  have sum: "(\<Sum>it\<leftarrow>items ?od. lineContribution_spec (menuIndexOf seedMenu)
                 (if modifierName it = Some [] then it\<lparr>modifierName := None\<rparr> else it)) = 44"
    by (simp add: lineContribution_spec_def menuIndexOf_def seedMenu_def)
  have "computeOrderTotal_js ?od (menuIndexOf seedMenu)
          = Value (\<Sum>it\<leftarrow>items ?od. lineContribution_spec (menuIndexOf seedMenu)
                      (if modifierName it = Some [] then it\<lparr>modifierName := None\<rparr> else it))
         \<and> computeOrderTotal_js ?od (menuIndexOf seedMenu)
          = Value (\<Sum>it\<leftarrow>items ?od. lineContribution (menuIndexOf seedMenu) it)"
    using inst [THEN conjunct1] own by (rule mp)
  then have w2: "computeOrderTotal_js ?od (menuIndexOf seedMenu) = Value 44"
    by (simp only: sum)
  have w3: "modifierName ?named \<noteq> Some []" by simp
  have "lineContribution (menuIndexOf seedMenu) ?named
          = lineContribution_spec (menuIndexOf seedMenu) ?named"
    using inst [THEN conjunct2, THEN conjunct2, THEN conjunct1] w3 by (rule mp)
  moreover have "lineContribution (menuIndexOf seedMenu) ?named = 9"
    by (simp add: lineContribution_def menuIndexOf_def seedMenu_def)
  ultimately have w4: "lineContribution_spec (menuIndexOf seedMenu) ?named = 9"
    by (simp only:)
  have w5: "modifierName ?empty = Some []" by simp
  have "lineContribution (menuIndexOf seedMenu) ?empty
          = lineContribution_spec (menuIndexOf seedMenu) (?empty\<lparr>modifierName := None\<rparr>)"
    using inst [THEN conjunct2, THEN conjunct2, THEN conjunct2, THEN conjunct1] w5 by (rule mp)
  moreover have "lineContribution_spec (menuIndexOf seedMenu) (?empty\<lparr>modifierName := None\<rparr>) = 8"
    by (simp add: lineContribution_spec_def menuIndexOf_def seedMenu_def)
  ultimately have w6: "lineContribution (menuIndexOf seedMenu) ?empty = 8"
    by (simp only:)
  show ?thesis
    by (intro conjI w1 w2 w3 w4 w5 w6)
qed

text \<open>
  The claim as stated fails on two kinds of input. A line whose \<^verbatim>\<open>menuItemId\<close> is
  \<^verbatim>\<open>constructor\<close>, which is no menu id: the lookup finds the member the index object
  inherits, the total is \<^verbatim>\<open>NaN\<close> instead of the 11 of the other line, and with a
  modifier name on that line the call throws a \<^verbatim>\<open>TypeError\<close>. A line with the empty
  modifier name on an item that has a modifier of that name, with delta 5 on a base
  price of 10: the code adds 10 where the claim has 15.
\<close>

lemma inherited_total_nan:
  "computeOrderTotal_js
        \<lparr>order_id = ''o1'', tableId = ''t1'',
         items = [\<lparr>menuItemId = ''mi_burger'', modifierName = None, qty = 1\<rparr>,
                  \<lparr>menuItemId = ''constructor'', modifierName = None, qty = 1\<rparr>],
         status = served, createdAt = 0\<rparr>
        (menuIndexOf seedMenu) = NotANumber"
  by (simp add: computeOrderTotal_js_def getProperty_def menuIndexOf_def seedMenu_def
        objectPrototype_def)

lemma inherited_total_throws:
  "computeOrderTotal_js
        \<lparr>order_id = ''o1'', tableId = ''t1'',
         items = [\<lparr>menuItemId = ''mi_burger'', modifierName = None, qty = 1\<rparr>,
                  \<lparr>menuItemId = ''constructor'', modifierName = Some ''Bacon'', qty = 1\<rparr>],
         status = served, createdAt = 0\<rparr>
        (menuIndexOf seedMenu) = TypeError"
  by (simp add: computeOrderTotal_js_def getProperty_def menuIndexOf_def seedMenu_def
        objectPrototype_def)

lemma empty_name_total:
  "computeOrderTotal_js
        \<lparr>order_id = ''o1'', tableId = ''t1'',
         items = [\<lparr>menuItemId = ''m1'', modifierName = Some [], qty = 1\<rparr>],
         status = served, createdAt = 0\<rparr>
        (menuIndexOf [\<lparr>mi_id = ''m1'', mi_name = ''Soup'', category = ''Starters'',
                       price = 10, modifiers = [\<lparr>mod_name = [], priceDelta = 5\<rparr>]\<rparr>])
     = Value (10::rat)"
  by (simp add: computeOrderTotal_js_def getProperty_def menuIndexOf_def)

theorem computeOrderTotal_spec_counterexample:
  "menuIndexOf seedMenu ''constructor'' = None
   \<and> sum_list (map (lineContribution_spec (menuIndexOf seedMenu))
        [\<lparr>menuItemId = ''mi_burger'', modifierName = None, qty = 1\<rparr>,
         \<lparr>menuItemId = ''constructor'', modifierName = None, qty = 1\<rparr>]) = 11
   \<and> computeOrderTotal_js
        \<lparr>order_id = ''o1'', tableId = ''t1'',
         items = [\<lparr>menuItemId = ''mi_burger'', modifierName = None, qty = 1\<rparr>,
                  \<lparr>menuItemId = ''constructor'', modifierName = None, qty = 1\<rparr>],
         status = served, createdAt = 0\<rparr>
        (menuIndexOf seedMenu) = NotANumber
   \<and> computeOrderTotal_js
        \<lparr>order_id = ''o1'', tableId = ''t1'',
         items = [\<lparr>menuItemId = ''mi_burger'', modifierName = None, qty = 1\<rparr>,
                  \<lparr>menuItemId = ''constructor'', modifierName = Some ''Bacon'', qty = 1\<rparr>],
         status = served, createdAt = 0\<rparr>
        (menuIndexOf seedMenu) = TypeError
   \<and> sum_list (map (lineContribution_spec
          (menuIndexOf [\<lparr>mi_id = ''m1'', mi_name = ''Soup'', category = ''Starters'',
                         price = 10, modifiers = [\<lparr>mod_name = [], priceDelta = 5\<rparr>]\<rparr>]))
        [\<lparr>menuItemId = ''m1'', modifierName = Some [], qty = 1\<rparr>]) = (15::rat)
   \<and> computeOrderTotal_js
        \<lparr>order_id = ''o1'', tableId = ''t1'',
         items = [\<lparr>menuItemId = ''m1'', modifierName = Some [], qty = 1\<rparr>],
         status = served, createdAt = 0\<rparr>
        (menuIndexOf [\<lparr>mi_id = ''m1'', mi_name = ''Soup'', category = ''Starters'',
                       price = 10, modifiers = [\<lparr>mod_name = [], priceDelta = 5\<rparr>]\<rparr>])
     = Value (10::rat)"
proof -
  have absent: "menuIndexOf seedMenu ''constructor'' = None"
    by (simp add: menuIndexOf_def seedMenu_def)
  have claimed: "sum_list (map (lineContribution_spec (menuIndexOf seedMenu))
        [\<lparr>menuItemId = ''mi_burger'', modifierName = None, qty = 1\<rparr>,
         \<lparr>menuItemId = ''constructor'', modifierName = None, qty = 1\<rparr>]) = 11"
    by (simp add: lineContribution_spec_def menuIndexOf_def seedMenu_def)
  have claimed': "sum_list (map (lineContribution_spec
          (menuIndexOf [\<lparr>mi_id = ''m1'', mi_name = ''Soup'', category = ''Starters'',
                         price = 10, modifiers = [\<lparr>mod_name = [], priceDelta = 5\<rparr>]\<rparr>]))
        [\<lparr>menuItemId = ''m1'', modifierName = Some [], qty = 1\<rparr>]) = (15::rat)"
    by (simp add: lineContribution_spec_def menuIndexOf_def)
  show ?thesis
    by (intro conjI absent claimed inherited_total_nan inherited_total_throws claimed'
          empty_name_total)
qed

text \<open>
  In exact arithmetic the call comes to the same on every permutation of the item list:
  the same number, or \<^verbatim>\<open>NaN\<close> or the error alike.
\<close>

lemma computeOrderTotal_js_mset:
  fixes o1 o2 :: "('n::{comm_monoid_add,times}) Order"
  assumes "mset (items o2) = mset (items o1)"
  shows "computeOrderTotal_js o2 menuIndex = computeOrderTotal_js o1 menuIndex"
proof -
  have s: "set (items o2) = set (items o1)" using assms by (rule mset_eq_setD)
  show ?thesis
  proof (cases "\<exists>it \<in> set (items o1). readsInherited menuIndex (menuItemId it)")
    case True
    show ?thesis
    proof (cases "\<exists>it \<in> set (items o1). throwsOn menuIndex it")
      case t: True
      then have "computeOrderTotal_js o1 menuIndex = TypeError"
        by (simp only: computeOrderTotal_js_outcome(1))
      moreover have "computeOrderTotal_js o2 menuIndex = TypeError"
        using t by (simp only: computeOrderTotal_js_outcome(1) s)
      ultimately show ?thesis by simp
    next
      case f: False
      have "computeOrderTotal_js o1 menuIndex = NotANumber"
        using True f by (simp only: computeOrderTotal_js_outcome(2) simp_thms)
      moreover have "computeOrderTotal_js o2 menuIndex = NotANumber"
        using True f by (simp only: computeOrderTotal_js_outcome(2) s simp_thms)
      ultimately show ?thesis by simp
    qed
  next
    case False
    then have own1: "\<forall>it \<in> set (items o1). \<not> readsInherited menuIndex (menuItemId it)"
      by blast
    then have own2: "\<forall>it \<in> set (items o2). \<not> readsInherited menuIndex (menuItemId it)"
      by (simp only: s)
    show ?thesis
      by (simp only: computeOrderTotal_js_own[OF own1] computeOrderTotal_js_own[OF own2]
            computeOrderTotal_mset[OF assms])
  qed
qed

text \<open>
  The total of an exact order in binary64 is its total in exact arithmetic.
\<close>

lemma lineContribution_unitPrice:
  "lineContribution menuIndex it =
     (case menuIndex (menuItemId it) of None \<Rightarrow> 0 | Some mi \<Rightarrow> unitPrice mi it * qty it)"
  by (simp add: lineContribution_def unitPrice_def split: option.splits)

lemma find_dblModifier:
  "find (\<lambda>m. mod_name m = n) (map dblModifier ms)
     = map_option dblModifier (find (\<lambda>m. mod_name m = n) ms)"
  by (induction ms) (simp_all add: dblModifier_def)

lemma unitPrice_dbl:
  "unitPrice (dblMenuItem mi) (dblOrderItem it)
     = round64 (unitPrice mi it)"
  by (simp add: unitPrice_def dblMenuItem_def dblOrderItem_def find_dblModifier
        zero_double_def dblModifier_def split: option.splits)

lemma line_dbl:
  assumes "k \<le> 1074" "exactLine k menuIndex it" "menuIndex (menuItemId it) = Some mi"
  shows "lineContribution (dblIndex menuIndex) (dblOrderItem it)
           = Finite (lineContribution menuIndex it)"
proof -
  have g1: "onGrid k (unitPrice mi it)" and g2: "onGrid k (unitPrice mi it * qty it)"
    using assms(2,3) by (simp_all add: exactLine_def)
  have idx: "dblIndex menuIndex (menuItemId (dblOrderItem it)) = Some (dblMenuItem mi)"
    using assms(3) by (simp add: dblIndex_def dblOrderItem_def)
  have "lineContribution (dblIndex menuIndex) (dblOrderItem it)
          = unitPrice (dblMenuItem mi) (dblOrderItem it) * qty (dblOrderItem it)"
    by (simp add: lineContribution_unitPrice idx)
  also have "\<dots> = Finite (unitPrice mi it) * Finite (qty it)"
  proof -
    have "unitPrice (dblMenuItem mi) (dblOrderItem it) = Finite (unitPrice mi it)"
      by (simp only: unitPrice_dbl round64_onGrid[OF assms(1) g1])
    moreover have "qty (dblOrderItem it) = Finite (qty it)"
      by (simp add: dblOrderItem_def)
    ultimately show ?thesis by (simp only:)
  qed
  also have "\<dots> = Finite (unitPrice mi it * qty it)"
    by (simp add: round64_onGrid[OF assms(1) g2])
  finally show ?thesis using assms(3) by (simp add: lineContribution_unitPrice)
qed

lemma foldl_plus_map:
  "foldl (\<lambda>s x. s + f x) a xs = foldl (+) a (map f xs)"
  by (induction xs arbitrary: a) simp_all

lemma present_dbl:
  "filter (\<lambda>it. dblIndex menuIndex (menuItemId it) \<noteq> None) (map dblOrderItem its)
     = map dblOrderItem (filter (\<lambda>it. menuIndex (menuItemId it) \<noteq> None) its)"
  by (induction its) (simp_all add: dblIndex_def dblOrderItem_def)

lemma sum_present:
  fixes menuIndex :: "string \<rightharpoonup> rat MenuItem"
  shows "(\<Sum>it\<leftarrow>filter (\<lambda>it. menuIndex (menuItemId it) \<noteq> None) its.
            lineContribution menuIndex it)
         = (\<Sum>it\<leftarrow>its. lineContribution menuIndex it)"
  by (induction its) (auto simp: lineContribution_def)

lemma sum_abs_present:
  fixes menuIndex :: "string \<rightharpoonup> rat MenuItem"
  shows "(\<Sum>it\<leftarrow>filter (\<lambda>it. menuIndex (menuItemId it) \<noteq> None) its.
            \<bar>lineContribution menuIndex it\<bar>)
         = (\<Sum>it\<leftarrow>its. \<bar>lineContribution menuIndex it\<bar>)"
  by (induction its) (auto simp: lineContribution_def)

lemma total_dbl:
  assumes k: "k \<le> 1074" and ex: "exactOrder k menuIndex od"
  shows "computeOrderTotal (dblOrder od) (dblIndex menuIndex)
           = Finite (computeOrderTotal od menuIndex)"
proof -
  let ?pres = "filter (\<lambda>it. menuIndex (menuItemId it) \<noteq> None) (items od)"
  let ?c = "lineContribution menuIndex"
  have lines: "\<forall>it \<in> set ?pres. exactLine k menuIndex it"
    using ex by (simp add: exactOrder_def)
  have each: "lineContribution (dblIndex menuIndex) (dblOrderItem it) = Finite (?c it)"
    if "it \<in> set ?pres" for it
  proof -
    from that obtain mi where "menuIndex (menuItemId it) = Some mi" by auto
    moreover have "exactLine k menuIndex it" using lines that by blast
    ultimately show ?thesis using k by (intro line_dbl) simp_all
  qed
  have mult: "\<forall>c \<in> set (map ?c ?pres). of_int \<lfloor>c * 2 ^ k\<rfloor> = c * (2 ^ k :: rat)"
  proof
    fix c assume "c \<in> set (map ?c ?pres)"
    then obtain it where it: "it \<in> set ?pres" "c = ?c it" by auto
    then obtain mi where mi: "menuIndex (menuItemId it) = Some mi" by auto
    have "exactLine k menuIndex it" using lines it(1) by blast
    then have "onGrid k (unitPrice mi it * qty it)" using mi by (simp add: exactLine_def)
    moreover have "c = unitPrice mi it * qty it"
      using it(2) mi by (simp add: lineContribution_unitPrice)
    ultimately show "of_int \<lfloor>c * 2 ^ k\<rfloor> = c * (2 ^ k :: rat)" by (simp only: onGrid_def)
  qed
  have bound: "(\<bar>0\<bar> + (\<Sum>c\<leftarrow>map ?c ?pres. \<bar>c\<bar>)) * 2 ^ k < (2 ^ 53 :: rat)"
  proof -
    have "(\<Sum>c\<leftarrow>map ?c ?pres. \<bar>c\<bar>) = (\<Sum>it\<leftarrow>?pres. \<bar>?c it\<bar>)"
      by (simp add: comp_def)
    also have "\<dots> = (\<Sum>it\<leftarrow>items od. \<bar>?c it\<bar>)" by (rule sum_abs_present)
    finally show ?thesis using ex by (simp add: exactOrder_def)
  qed
  have zero: "of_int \<lfloor>0 * 2 ^ k\<rfloor> = 0 * (2 ^ k :: rat)" by simp
  have its: "items (dblOrder od) = map dblOrderItem (items od)"
    by (simp add: dblOrder_def)
  have "computeOrderTotal (dblOrder od) (dblIndex menuIndex)
          = foldl (\<lambda>sum it. sum + lineContribution (dblIndex menuIndex) it) 0
              (filter (\<lambda>it. dblIndex menuIndex (menuItemId it) \<noteq> None) (items (dblOrder od)))"
    unfolding computeOrderTotal_def by (rule computeOrderTotal_foldl_gen)
  also have "\<dots> = foldl (\<lambda>sum it. sum + lineContribution (dblIndex menuIndex) it) 0
              (map dblOrderItem ?pres)"
    by (simp only: its present_dbl)
  also have "\<dots> = foldl (+) 0
                       (map (lineContribution (dblIndex menuIndex)) (map dblOrderItem ?pres))"
    by (rule foldl_plus_map)
  also have "\<dots> = foldl (+) (Finite 0)
                       (map (\<lambda>it. lineContribution (dblIndex menuIndex) (dblOrderItem it)) ?pres)"
    by (simp add: zero_double_def comp_def)
  also have "\<dots> = foldl (+) (Finite 0) (map Finite (map ?c ?pres))"
  proof -
    have "map (\<lambda>it. lineContribution (dblIndex menuIndex) (dblOrderItem it)) ?pres
            = map (\<lambda>it. Finite (?c it)) ?pres"
      by (rule map_cong) (simp_all only: each)
    then show ?thesis by (simp only: map_map comp_def)
  qed
  also have "\<dots> = Finite (0 + sum_list (map ?c ?pres))"
    using k zero mult bound by (rule foldl_plus_exact)
  also have "\<dots> = Finite (computeOrderTotal od menuIndex)"
    by (simp only: add_0 sum_present computeOrderTotal_sum_list)
  finally show ?thesis .
qed

lemma exactOrder_mset:
  assumes "mset its' = mset (items od)"
  shows "exactOrder k menuIndex (od\<lparr>items := its'\<rparr>) = exactOrder k menuIndex od"
proof -
  have "set its' = set (items od)" using assms by (rule mset_eq_setD)
  moreover have "(\<Sum>it\<leftarrow>its'. \<bar>lineContribution menuIndex it\<bar>)
       = (\<Sum>it\<leftarrow>items od. \<bar>lineContribution menuIndex it\<bar>)"
  proof -
    have "mset (map (\<lambda>it. \<bar>lineContribution menuIndex it\<bar>) its')
        = mset (map (\<lambda>it. \<bar>lineContribution menuIndex it\<bar>) (items od))"
      using assms by (metis mset_map)
    then show ?thesis by (metis sum_mset_sum_list)
  qed
  ultimately show ?thesis by (simp add: exactOrder_def)
qed

lemma total_dbl_permutation:
  assumes "k \<le> 1074" "exactOrder k menuIndex od" "mset its' = mset (items od)"
  shows "computeOrderTotal (dblOrder (od\<lparr>items := its'\<rparr>)) (dblIndex menuIndex)
           = computeOrderTotal (dblOrder od) (dblIndex menuIndex)"
proof -
  have ex': "exactOrder k menuIndex (od\<lparr>items := its'\<rparr>)"
    using assms(2) exactOrder_mset[OF assms(3)] by simp
  have "computeOrderTotal (od\<lparr>items := its'\<rparr>) menuIndex = computeOrderTotal od menuIndex"
    using assms(3) by (intro computeOrderTotal_mset) simp
  then show ?thesis
    by (simp only: total_dbl[OF assms(1) ex'] total_dbl[OF assms(1,2)])
qed




lemma dblOrder_status: "dblOrder (od\<lparr>status := st\<rparr>) = (dblOrder od)\<lparr>status := st\<rparr>"
  by (simp add: dblOrder_def)

lemma seed_exact: "exactOrder 1 (menuIndexOf seedMenu) (hd (orders exampleState))"
  by (simp add: exactOrder_def exactLine_def onGrid_def unitPrice_def
        lineContribution_def menuIndexOf_def seedMenu_def exampleState_def seedOrders_def)

text \<open>
  Claim C8, as the code has it. In exact arithmetic (addition commutative and
  associative: no addition rounds), \<open>computeOrderTotal\<close> gives the same value on every
  permutation of the item list. In any arithmetic it gives 0 on the empty item list.
  In binary64, the arithmetic of the code, an order that is exact on a grid (every unit
  price and line contribution a multiple of \<open>2\<^sup>-\<^sup>k\<close>, the magnitudes of the contributions
  adding up to less than \<open>2\<^sup>5\<^sup>3\<^sup>-\<^sup>k\<close>) has the same total on every permutation of its
  item list, and that total is the exact one.
\<close>

theorem computeOrderTotal_permutation:
  fixes od :: "('n::{comm_monoid_add,times}) Order"
    and od0 :: "('m::{zero,plus,times}) Order"
  shows "(mset its' = mset (items od) \<longrightarrow>
            computeOrderTotal (od\<lparr>items := its'\<rparr>) menuIndex = computeOrderTotal od menuIndex)
         \<and> computeOrderTotal (od0\<lparr>items := []\<rparr>) menuIndex0 = 0
         \<and> (k \<le> 1074 \<and> exactOrder k index64 od64 \<and> mset its64 = mset (items od64) \<longrightarrow>
              computeOrderTotal (dblOrder (od64\<lparr>items := its64\<rparr>)) (dblIndex index64)
                = computeOrderTotal (dblOrder od64) (dblIndex index64)
              \<and> computeOrderTotal (dblOrder od64) (dblIndex index64)
                = Finite (computeOrderTotal od64 index64))"
proof (intro conjI impI)
  assume "mset its' = mset (items od)"
  then show "computeOrderTotal (od\<lparr>items := its'\<rparr>) menuIndex = computeOrderTotal od menuIndex"
    using computeOrderTotal_mset[of "od\<lparr>items := its'\<rparr>" od menuIndex] by simp
next
  show "computeOrderTotal (od0\<lparr>items := []\<rparr>) menuIndex0 = 0"
    by (simp add: computeOrderTotal_def)
next
  assume h: "k \<le> 1074 \<and> exactOrder k index64 od64 \<and> mset its64 = mset (items od64)"
  then have h1: "k \<le> 1074" and h2: "exactOrder k index64 od64"
    and h3: "mset its64 = mset (items od64)"
    by simp_all
  show "computeOrderTotal (dblOrder (od64\<lparr>items := its64\<rparr>)) (dblIndex index64)
                = computeOrderTotal (dblOrder od64) (dblIndex index64)"
    using h1 h2 h3 by (rule total_dbl_permutation)
  show "computeOrderTotal (dblOrder od64) (dblIndex index64)
                = Finite (computeOrderTotal od64 index64)"
    using h1 h2 by (rule total_dbl)
qed

theorem computeOrderTotal_permutation_witness:
  "mset (rev (items (hd (orders exampleState)))) = mset (items (hd (orders exampleState)))
   \<and> (1::nat) \<le> 1074
   \<and> exactOrder 1 (menuIndexOf seedMenu) (hd (orders exampleState))
   \<and> computeOrderTotal ((hd (orders exampleState))\<lparr>items := rev (items (hd (orders exampleState)))\<rparr>)
         (menuIndexOf seedMenu) = 33
   \<and> computeOrderTotal (hd (orders exampleState)) (menuIndexOf seedMenu) = 33
   \<and> computeOrderTotal
         (dblOrder ((hd (orders exampleState))\<lparr>items := rev (items (hd (orders exampleState)))\<rparr>))
         (dblIndex (menuIndexOf seedMenu)) = Finite 33
   \<and> computeOrderTotal (dblOrder (hd (orders exampleState))) (dblIndex (menuIndexOf seedMenu))
       = Finite 33"
proof -
  have t: "computeOrderTotal (hd (orders exampleState)) (menuIndexOf seedMenu) = 33"
    by (simp add: exampleState_def seedOrders_def computeOrderTotal_def menuIndexOf_def seedMenu_def)
  have p: "mset (rev (items (hd (orders exampleState)))) = mset (items (hd (orders exampleState)))"
    by simp
  show ?thesis
    using computeOrderTotal_permutation
            [of "rev (items (hd (orders exampleState)))" "hd (orders exampleState)"
                "menuIndexOf seedMenu" "hd (orders exampleState)" "menuIndexOf seedMenu"
                1 "menuIndexOf seedMenu" "hd (orders exampleState)"
                "rev (items (hd (orders exampleState)))"]
          seed_exact t p
    by simp
qed

text \<open>
  The claim as stated fails in the arithmetic of the code. Three lines priced 0.1, 0.2
  and 0.3, one of each: in this order the total is 0.6000000000000001, in the reverse
  order it is 0.6.
\<close>

lemma rounding_total_abc:
  "computeOrderTotal
        \<lparr>order_id = ''o1'', tableId = ''t1'',
         items = [\<lparr>menuItemId = ''a'', modifierName = None, qty = Finite 1\<rparr>,
                  \<lparr>menuItemId = ''b'', modifierName = None, qty = Finite 1\<rparr>,
                  \<lparr>menuItemId = ''c'', modifierName = None, qty = Finite 1\<rparr>],
         status = served, createdAt = 0\<rparr>
        (menuIndexOf roundingMenu)
       = Finite (1351079888211149 / 2251799813685248)"
  by (simp add: computeOrderTotal_def menuIndexOf_def roundingMenu_def zero_double_def ev)

lemma rounding_total_cba:
  "computeOrderTotal
        \<lparr>order_id = ''o1'', tableId = ''t1'',
         items = [\<lparr>menuItemId = ''c'', modifierName = None, qty = Finite 1\<rparr>,
                  \<lparr>menuItemId = ''b'', modifierName = None, qty = Finite 1\<rparr>,
                  \<lparr>menuItemId = ''a'', modifierName = None, qty = Finite 1\<rparr>],
         status = served, createdAt = 0\<rparr>
        (menuIndexOf roundingMenu)
       = Finite (5404319552844595 / 9007199254740992)"
  by (simp add: computeOrderTotal_def menuIndexOf_def roundingMenu_def zero_double_def ev)

theorem computeOrderTotal_permutation_counterexample:
  "mset [\<lparr>menuItemId = ''c'', modifierName = None, qty = Finite 1\<rparr>,
         \<lparr>menuItemId = ''b'', modifierName = None, qty = Finite 1\<rparr>,
         \<lparr>menuItemId = ''a'', modifierName = None, qty = Finite 1\<rparr>]
     = mset [\<lparr>menuItemId = ''a'', modifierName = None, qty = Finite 1\<rparr>,
             \<lparr>menuItemId = ''b'', modifierName = None, qty = Finite 1\<rparr>,
             \<lparr>menuItemId = ''c'', modifierName = None, qty = Finite 1\<rparr>]
   \<and> computeOrderTotal
        \<lparr>order_id = ''o1'', tableId = ''t1'',
         items = [\<lparr>menuItemId = ''a'', modifierName = None, qty = Finite 1\<rparr>,
                  \<lparr>menuItemId = ''b'', modifierName = None, qty = Finite 1\<rparr>,
                  \<lparr>menuItemId = ''c'', modifierName = None, qty = Finite 1\<rparr>],
         status = served, createdAt = 0\<rparr>
        (menuIndexOf roundingMenu)
       = Finite (1351079888211149 / 2251799813685248)
   \<and> computeOrderTotal
        \<lparr>order_id = ''o1'', tableId = ''t1'',
         items = [\<lparr>menuItemId = ''c'', modifierName = None, qty = Finite 1\<rparr>,
                  \<lparr>menuItemId = ''b'', modifierName = None, qty = Finite 1\<rparr>,
                  \<lparr>menuItemId = ''a'', modifierName = None, qty = Finite 1\<rparr>],
         status = served, createdAt = 0\<rparr>
        (menuIndexOf roundingMenu)
       = Finite (5404319552844595 / 9007199254740992)
   \<and> Finite (5404319552844595 / 9007199254740992)
       \<noteq> Finite (1351079888211149 / 2251799813685248)"
  by (simp add: rounding_total_abc rounding_total_cba)

section \<open>Mutators\<close>

lemma createOrder_orders:
  "orders (createOrder newId now tid its s) =
     \<lparr>order_id = newId, tableId = tid, items = its, status = in_progress, createdAt = now\<rparr>
       # orders s"
  by (simp add: createOrder_def)

lemma createOrder_tables:
  "tables (createOrder newId now tid its s) =
     map (\<lambda>t. if table_id t = tid then t\<lparr>table_status := occupied\<rparr> else t) (tables s)"
  by (simp add: createOrder_def)


lemma updateOrderStatus_tables:
  "tables (updateOrderStatus orderId st s) =
     (if st = paid then
        (case find (\<lambda>od. order_id od = orderId) (orders s) of
           Some order \<Rightarrow> map (\<lambda>t. if table_id t = tableId order
                                   then t\<lparr>table_status := needs_cleaning\<rparr> else t) (tables s)
         | None \<Rightarrow> tables s)
      else tables s)"
  by (simp add: updateOrderStatus_def Let_def split: option.splits)

lemma markTableClean_tables:
  "tables (markTableClean tid s) =
     map (\<lambda>t. if table_id t = tid then t\<lparr>table_status := available\<rparr> else t) (tables s)"
  by (simp add: markTableClean_def)

lemma find_unique:
  assumes "distinct (map f xs)" "x \<in> set xs"
  shows "find (\<lambda>y. f y = f x) xs = Some x"
  using assms by (induction xs) auto

lemma set_status_ids:
  "map table_id (map (\<lambda>t. if P t then t\<lparr>table_status := v\<rparr> else t) ts) = map table_id ts"
  by (induction ts) auto

lemma set_status_names:
  "map table_name (map (\<lambda>t. if P t then t\<lparr>table_status := v\<rparr> else t) ts) = map table_name ts"
  by (induction ts) auto

lemma set_status_pick:
  assumes "x \<in> set (map (\<lambda>t. if table_id t = tid then t\<lparr>table_status := v\<rparr> else t) ts)"
  obtains t where "x = (if table_id t = tid then t\<lparr>table_status := v\<rparr> else t)"
  using assms unfolding set_map image_iff by blast

lemma set_status_at:
  assumes "x = (if table_id t = tid then t\<lparr>table_status := v\<rparr> else t)" "table_id x = tid"
  shows "table_status x = v"
  using assms by (cases "table_id t = tid") simp_all

lemma set_status_hit:
  "\<forall>x \<in> set (map (\<lambda>t. if table_id t = tid then t\<lparr>table_status := v\<rparr> else t) ts).
     table_id x = tid \<longrightarrow> table_status x = v"
proof (intro ballI impI)
  fix x
  assume mem: "x \<in> set (map (\<lambda>t. if table_id t = tid then t\<lparr>table_status := v\<rparr> else t) ts)"
    and hit: "table_id x = tid"
  from mem obtain t where "x = (if table_id t = tid then t\<lparr>table_status := v\<rparr> else t)"
    by (rule set_status_pick)
  then show "table_status x = v" using hit by (rule set_status_at)
qed

lemma map_no_match:
  "\<forall>x \<in> set xs. f x \<noteq> k \<Longrightarrow> map (\<lambda>x. if f x = k then g x else x) xs = xs"
  by (induction xs) auto

lemma find_no_match:
  "\<forall>x \<in> set xs. f x \<noteq> k \<Longrightarrow> find (\<lambda>x. f x = k) xs = None"
  by (induction xs) auto


text \<open>
  Claim C5. For every prior state and every table id, \<open>createOrder\<close> puts a new order
  with status \<open>in_progress\<close> at the front of the order collection, all prior orders
  following unchanged, and every table with the referenced id has status \<open>occupied\<close>
  afterwards, whatever its status was before.
\<close>

theorem createOrder_front_occupied:
  "orders (createOrder newId now tid its s) =
      \<lparr>order_id = newId, tableId = tid, items = its, status = in_progress, createdAt = now\<rparr>
        # orders s
   \<and> status (hd (orders (createOrder newId now tid its s))) = in_progress
   \<and> tl (orders (createOrder newId now tid its s)) = orders s
   \<and> tables (createOrder newId now tid its s) =
       map (\<lambda>t. if table_id t = tid then t\<lparr>table_status := occupied\<rparr> else t) (tables s)
   \<and> (\<forall>t \<in> set (tables (createOrder newId now tid its s)).
         table_id t = tid \<longrightarrow> table_status t = occupied)"
proof -
  have front: "orders (createOrder newId now tid its s) =
      \<lparr>order_id = newId, tableId = tid, items = its, status = in_progress, createdAt = now\<rparr>
        # orders s"
    by (rule createOrder_orders)
  have st: "status (hd (orders (createOrder newId now tid its s))) = in_progress"
    by (simp add: front)
  have rest: "tl (orders (createOrder newId now tid its s)) = orders s"
    by (simp add: front)
  have occ: "\<forall>t \<in> set (tables (createOrder newId now tid its s)).
         table_id t = tid \<longrightarrow> table_status t = occupied"
    unfolding createOrder_tables by (rule set_status_hit)
  show ?thesis
    by (intro conjI) (rule front, rule st, rule rest, rule createOrder_tables, rule occ)
qed

theorem createOrder_front_occupied_witness:
  "orders (createOrder ''o9'' 5 ''t1'' [\<lparr>menuItemId = ''mi_pizza'', modifierName = None, qty = 1\<rparr>]
      \<lparr>menuItems = [],
       tables = [\<lparr>table_id = ''t1'', table_name = ''Table 1'', table_status = needs_cleaning\<rparr>,
                 \<lparr>table_id = ''t2'', table_name = ''Table 2'', table_status = available\<rparr>],
       orders = [\<lparr>order_id = ''o1'', tableId = ''t1'', items = [], status = served,
                   createdAt = 1\<rparr>]\<rparr>)
    = [\<lparr>order_id = ''o9'', tableId = ''t1'',
        items = [\<lparr>menuItemId = ''mi_pizza'', modifierName = None, qty = 1::int\<rparr>],
        status = in_progress, createdAt = 5\<rparr>,
       \<lparr>order_id = ''o1'', tableId = ''t1'', items = [], status = served, createdAt = 1\<rparr>]
   \<and> tables (createOrder ''o9'' 5 ''t1''
        [\<lparr>menuItemId = ''mi_pizza'', modifierName = None, qty = 1::int\<rparr>]
      \<lparr>menuItems = [],
       tables = [\<lparr>table_id = ''t1'', table_name = ''Table 1'', table_status = needs_cleaning\<rparr>,
                 \<lparr>table_id = ''t2'', table_name = ''Table 2'', table_status = available\<rparr>],
       orders = [\<lparr>order_id = ''o1'', tableId = ''t1'', items = [], status = served,
                   createdAt = 1\<rparr>]\<rparr>)
    = [\<lparr>table_id = ''t1'', table_name = ''Table 1'', table_status = occupied\<rparr>,
       \<lparr>table_id = ''t2'', table_name = ''Table 2'', table_status = available\<rparr>]"
  using createOrder_front_occupied
          [of "''o9''" 5 "''t1''"
              "[\<lparr>menuItemId = ''mi_pizza'', modifierName = None, qty = 1::int\<rparr>]"
              "\<lparr>menuItems = [],
                tables = [\<lparr>table_id = ''t1'', table_name = ''Table 1'',
                           table_status = needs_cleaning\<rparr>,
                          \<lparr>table_id = ''t2'', table_name = ''Table 2'',
                           table_status = available\<rparr>],
                orders = [\<lparr>order_id = ''o1'', tableId = ''t1'', items = [], status = served,
                            createdAt = 1\<rparr>]\<rparr>"]
  by simp

text \<open>
  Claim C6. When the state holds an order with the given id, \<open>updateOrderStatus\<close> with
  \<open>paid\<close> sets the table of that order (the order \<^verbatim>\<open>orders.find\<close> returns: the first
  with the id, the only one when ids are unique) to \<open>needs_cleaning\<close>, whatever the
  table's status was and whatever other orders stand on it; and \<open>markTableClean\<close> sets
  the table with the given id to \<open>available\<close>, whatever its status and its orders.
\<close>

theorem paid_needs_cleaning_and_markTableClean:
  "(find (\<lambda>od. order_id od = orderId) (orders s) = Some order \<longrightarrow>
       tables (updateOrderStatus orderId paid s) =
         map (\<lambda>t. if table_id t = tableId order
                   then t\<lparr>table_status := needs_cleaning\<rparr> else t) (tables s)
       \<and> (\<forall>t \<in> set (tables (updateOrderStatus orderId paid s)).
             table_id t = tableId order \<longrightarrow> table_status t = needs_cleaning))
   \<and> (order \<in> set (orders s) \<and> distinct (map order_id (orders s)) \<longrightarrow>
        (\<forall>t \<in> set (tables (updateOrderStatus (order_id order) paid s)).
             table_id t = tableId order \<longrightarrow> table_status t = needs_cleaning))
   \<and> tables (markTableClean tid s) =
        map (\<lambda>t. if table_id t = tid then t\<lparr>table_status := available\<rparr> else t) (tables s)
   \<and> (\<forall>t \<in> set (tables (markTableClean tid s)).
         table_id t = tid \<longrightarrow> table_status t = available)"
proof -
  have a: "tables (updateOrderStatus oid paid s) =
         map (\<lambda>t. if table_id t = tableId x
                   then t\<lparr>table_status := needs_cleaning\<rparr> else t) (tables s)"
    if "find (\<lambda>od. order_id od = oid) (orders s) = Some x" for oid x
    using that by (simp add: updateOrderStatus_tables)
  have b: "\<forall>t \<in> set (tables (updateOrderStatus oid paid s)).
             table_id t = tableId x \<longrightarrow> table_status t = needs_cleaning"
    if "find (\<lambda>od. order_id od = oid) (orders s) = Some x" for oid x
    unfolding a[OF that] by (rule set_status_hit)
  have c: "find (\<lambda>od. order_id od = order_id order) (orders s) = Some order"
    if "order \<in> set (orders s)" "distinct (map order_id (orders s))"
    using find_unique[OF that(2) that(1)] .
  have d: "\<forall>t \<in> set (tables (markTableClean tid s)).
         table_id t = tid \<longrightarrow> table_status t = available"
    unfolding markTableClean_tables by (rule set_status_hit)
  show ?thesis
  proof (intro conjI impI)
    assume f: "find (\<lambda>od. order_id od = orderId) (orders s) = Some order"
    show "tables (updateOrderStatus orderId paid s) =
         map (\<lambda>t. if table_id t = tableId order
                   then t\<lparr>table_status := needs_cleaning\<rparr> else t) (tables s)"
      by (rule a[OF f])
    show "\<forall>t \<in> set (tables (updateOrderStatus orderId paid s)).
             table_id t = tableId order \<longrightarrow> table_status t = needs_cleaning"
      by (rule b[OF f])
  next
    assume "order \<in> set (orders s) \<and> distinct (map order_id (orders s))"
    then have "find (\<lambda>od. order_id od = order_id order) (orders s) = Some order"
      using c by blast
    then show "\<forall>t \<in> set (tables (updateOrderStatus (order_id order) paid s)).
             table_id t = tableId order \<longrightarrow> table_status t = needs_cleaning"
      by (rule b)
  next
    show "tables (markTableClean tid s) =
        map (\<lambda>t. if table_id t = tid then t\<lparr>table_status := available\<rparr> else t) (tables s)"
      by (rule markTableClean_tables)
    show "\<forall>t \<in> set (tables (markTableClean tid s)).
         table_id t = tid \<longrightarrow> table_status t = available"
      by (rule d)
  qed
qed

theorem paid_needs_cleaning_and_markTableClean_witness:
  "find (\<lambda>od. order_id od = ''o2'') (orders exampleState)
     = Some \<lparr>order_id = ''o2'', tableId = ''t2'',
             items = [\<lparr>menuItemId = ''mi_burger'', modifierName = Some ''Bacon'', qty = 1\<rparr>,
                      \<lparr>menuItemId = ''mi_salad'', modifierName = Some ''Grilled Chicken'',
                       qty = 1\<rparr>],
             status = served, createdAt = 1700000000000\<rparr>
   \<and> tables (updateOrderStatus ''o2'' paid exampleState)
     = [\<lparr>table_id = ''t1'', table_name = ''Table 1'', table_status = occupied\<rparr>,
        \<lparr>table_id = ''t2'', table_name = ''Table 2'', table_status = needs_cleaning\<rparr>,
        \<lparr>table_id = ''t3'', table_name = ''Table 3'', table_status = available\<rparr>]
   \<and> tables (markTableClean ''t2'' exampleState)
     = [\<lparr>table_id = ''t1'', table_name = ''Table 1'', table_status = occupied\<rparr>,
        \<lparr>table_id = ''t2'', table_name = ''Table 2'', table_status = available\<rparr>,
        \<lparr>table_id = ''t3'', table_name = ''Table 3'', table_status = available\<rparr>]"
  using paid_needs_cleaning_and_markTableClean
          [of "''o2''" exampleState
              "\<lparr>order_id = ''o2'', tableId = ''t2'',
                items = [\<lparr>menuItemId = ''mi_burger'', modifierName = Some ''Bacon'', qty = 1\<rparr>,
                         \<lparr>menuItemId = ''mi_salad'', modifierName = Some ''Grilled Chicken'',
                          qty = 1\<rparr>],
                status = served, createdAt = 1700000000000\<rparr>"
              "''t2''"]
  by (simp add: exampleState_def seedOrders_def)

text \<open>
  Claim C9. \<open>createOrder\<close>, \<open>updateOrderStatus\<close> and \<open>markTableClean\<close> keep the length
  of the table collection and the id and the name of every table, in the original order:
  they create and delete no table, and change status fields only.
\<close>

theorem mutators_keep_tables:
  "map table_id (tables (createOrder newId now tid its s)) = map table_id (tables s)
   \<and> map table_name (tables (createOrder newId now tid its s)) = map table_name (tables s)
   \<and> length (tables (createOrder newId now tid its s)) = length (tables s)
   \<and> map table_id (tables (updateOrderStatus orderId st s)) = map table_id (tables s)
   \<and> map table_name (tables (updateOrderStatus orderId st s)) = map table_name (tables s)
   \<and> length (tables (updateOrderStatus orderId st s)) = length (tables s)
   \<and> map table_id (tables (markTableClean tid' s)) = map table_id (tables s)
   \<and> map table_name (tables (markTableClean tid' s)) = map table_name (tables s)
   \<and> length (tables (markTableClean tid' s)) = length (tables s)"
  by (simp add: createOrder_tables updateOrderStatus_tables markTableClean_tables
        set_status_ids set_status_names split: option.splits)

text \<open>
  Claim C10. When no order of the collection has the given id, \<open>updateOrderStatus\<close>
  leaves the order collection and the table collection as they were, element by
  element, for every new status, \<open>paid\<close> included.
\<close>

theorem updateOrderStatus_unknown_id:
  assumes "\<forall>od \<in> set (orders s). order_id od \<noteq> orderId"
  shows "orders (updateOrderStatus orderId st s) = orders s
         \<and> tables (updateOrderStatus orderId st s) = tables s
         \<and> updateOrderStatus orderId st s = s"
  using assms
  by (simp add: updateOrderStatus_def Let_def map_no_match find_no_match)

theorem updateOrderStatus_unknown_id_witness:
  "length (orders exampleState) = 4
   \<and> \<not> (\<exists>od \<in> set (orders exampleState). order_id od = ''zz'')
   \<and> orders (updateOrderStatus ''zz'' paid exampleState) = orders exampleState
   \<and> tables (updateOrderStatus ''zz'' paid exampleState) = tables exampleState"
proof -
  have h: "\<forall>od \<in> set (orders exampleState). order_id od \<noteq> ''zz''"
    by (simp add: exampleState_def seedOrders_def)
  have ne: "length (orders exampleState) = 4"
    by (simp add: exampleState_def seedOrders_def)
  show ?thesis
    using updateOrderStatus_unknown_id[OF h, of paid] h ne by blast
qed


section \<open>Dashboard aggregates\<close>












lemma countedToday_append:
  "countedToday tz now (xs @ ys) = countedToday tz now xs @ countedToday tz now ys"
  by (simp add: countedToday_def)











lemma seed_totals:
  "map (\<lambda>od. computeOrderTotal od (menuIndexOf seedMenu)) (seedOrders u1 u2 u3 u4 now)
     = [33, 51 / 2, 31 / 2, 18]"
  by (simp add: seedOrders_def computeOrderTotal_def menuIndexOf_def seedMenu_def)

lemma startOfDay_le: "startOfDay tz d \<le> d"
  by (simp add: startOfDay_def)

lemma startOfDay_gt: "d - 86400000 < startOfDay tz d"
proof -
  have "(d + tz) mod 86400000 < 86400000" by simp
  then show ?thesis by (simp add: startOfDay_def)
qed

lemma withinLastNDays_iff:
  "withinLastNDays tz now t n \<longleftrightarrow> startOfDay tz now - (n - 1) * 86400000 \<le> t \<and> t \<le> now"
  by (simp add: withinLastNDays_def Let_def)

lemma seven_days_ago_outside: "\<not> withinLastNDays tz now (now - 7 * 86400000) 7"
  using startOfDay_gt[of now tz] by (simp add: withinLastNDays_iff)

lemma week_window_seed:
  "withinLastNDays tz now now 7"
  "withinLastNDays tz now (now - 1 * 86400000) 7"
  using startOfDay_le[of tz now] by (simp_all add: withinLastNDays_iff)

lemma weekSum_seed:
  "weekSum tz now (seedOrders u1 u2 u3 u4 now) (menuIndexOf seedMenu) = 41"
  using week_window_seed[of tz now] seven_days_ago_outside[of tz now]
  by (simp add: weekSum_def seedOrders_def computeOrderTotal_def menuIndexOf_def seedMenu_def)

text \<open>
  Claim C2, as the code has it. \<open>withinLastNDays\<close> admits exactly the instants from the
  start of today minus \<open>n - 1\<close> days up to now, both ends included. The start of today
  is less than a day before now, so an instant exactly 7 days before now lies before the
  window of "Last 7 days" and is not admitted. On the seed data, queried at the instant
  of seeding, the fourth order (paid, created 7 days before) is left out: the "Last 7
  days" sum is the served order of today plus the paid order of one day ago,
  25.5 + 15.5 = 41.
\<close>

theorem week_window_excludes_seventh_day:
  "(withinLastNDays tz now t n \<longleftrightarrow> startOfDay tz now - (n - 1) * 86400000 \<le> t \<and> t \<le> now)
   \<and> \<not> withinLastNDays tz now (now - 7 * 86400000) 7
   \<and> map createdAt (seedOrders u1 u2 u3 u4 now)
       = [now, now, now - 1 * 86400000, now - 7 * 86400000]
   \<and> map status (seedOrders u1 u2 u3 u4 now) = [in_progress, served, paid, paid]
   \<and> map (\<lambda>od. computeOrderTotal od (menuIndexOf seedMenu)) (seedOrders u1 u2 u3 u4 now)
       = [33, 51 / 2, 31 / 2, 18]
   \<and> weekSum tz now (seedOrders u1 u2 u3 u4 now) (menuIndexOf seedMenu) = 51 / 2 + 31 / 2"
proof -
  have a: "map createdAt (seedOrders u1 u2 u3 u4 now)
       = [now, now, now - 1 * 86400000, now - 7 * 86400000]"
    by (simp add: seedOrders_def)
  have b: "map status (seedOrders u1 u2 u3 u4 now) = [in_progress, served, paid, paid]"
    by (simp add: seedOrders_def)
  have c: "weekSum tz now (seedOrders u1 u2 u3 u4 now) (menuIndexOf seedMenu) = 51 / 2 + 31 / 2"
    by (simp add: weekSum_seed)
  show ?thesis
    by (intro conjI) (rule withinLastNDays_iff, rule seven_days_ago_outside, rule a, rule b,
        rule seed_totals, rule c)
qed

text \<open>
  The claim as stated fails on the seed data at the instant 1700000000000 in UTC: the
  fourth seed order is outside the window, and the sum is 41 with it and without it,
  although its own total is 18.
\<close>

theorem week_window_seed_counterexample:
  "\<not> withinLastNDays 0 1700000000000
        (createdAt (last (seedOrders ''o1'' ''o2'' ''o3'' ''o4'' 1700000000000))) 7
   \<and> createdAt (last (seedOrders ''o1'' ''o2'' ''o3'' ''o4'' 1700000000000))
        = 1700000000000 - 7 * 86400000
   \<and> status (last (seedOrders ''o1'' ''o2'' ''o3'' ''o4'' 1700000000000)) = paid
   \<and> computeOrderTotal (last (seedOrders ''o1'' ''o2'' ''o3'' ''o4'' 1700000000000))
        (menuIndexOf seedMenu) = 18
   \<and> weekSum 0 1700000000000 (seedOrders ''o1'' ''o2'' ''o3'' ''o4'' 1700000000000)
        (menuIndexOf seedMenu) = 41
   \<and> weekSum 0 1700000000000 (butlast (seedOrders ''o1'' ''o2'' ''o3'' ''o4'' 1700000000000))
        (menuIndexOf seedMenu) = 41"
proof -
  have w: "\<not> withinLastNDays 0 1700000000000 1699395200000 7"
          "withinLastNDays 0 1700000000000 1700000000000 7"
          "withinLastNDays 0 1700000000000 1699913600000 7"
    by (simp_all add: withinLastNDays_def startOfDay_def)
  show ?thesis
    using w
    by (simp add: weekSum_def seedOrders_def computeOrderTotal_def menuIndexOf_def seedMenu_def)
qed




lemma startOfDay_zone_fixed: "startOfDay_zone (fixedZone tz) d = startOfDay tz d"
  by (simp add: startOfDay_zone_def fixedZone_def startOfDay_def Let_def)







section \<open>Top sellers\<close>
















































end
